theory Spec2Isabelle
  imports Complex_Main "HOL-Library.Sublist"
begin

text \<open>
  A shallow embedding of the triage core of the voice assistant: the risk classifier, the
  session controller, the language analysis with its ambiguity score, and the safety
  guardian. Every TypeScript method is a function of the same name. A method that reads
  the fields of its object takes the object first; a method that changes them returns the
  new state; the clock, fresh identifiers and random numbers are arguments.
\<close>

section \<open>Strings\<close>

text \<open>
  Strings are lists of 8-bit characters. \<open>toLowerCase\<close> maps the letters A to Z to
  a to z and leaves every other character alone; \<open>str_includes\<close> is the method
  \<open>String.prototype.includes\<close>: the second string occurs as a contiguous block of
  the first. JavaScript numbers are modelled as reals; the places where the source can
  produce NaN are written out.

  A capital letter lies between 0x40 and 0x5F (bit 6 set, bits 5 and 7 clear) and becomes
  its small letter by setting bit 5.
\<close>

fun lowerChar :: "char \<Rightarrow> char" where
  "lowerChar (Char b0 b1 b2 b3 b4 b5 b6 b7) =
     (if b6 \<and> \<not> b5 \<and> \<not> b7 \<and>
         Char b0 b1 b2 b3 b4 b5 b6 b7 \<in> set ''ABCDEFGHIJKLMNOPQRSTUVWXYZ''
      then Char b0 b1 b2 b3 b4 True b6 b7
      else Char b0 b1 b2 b3 b4 b5 b6 b7)"

definition toLowerCase :: "string \<Rightarrow> string" where
  "toLowerCase s = map lowerChar s"

fun str_includes :: "string \<Rightarrow> string \<Rightarrow> bool" where
  "str_includes [] t = (t = [])"
| "str_includes (c # cs) t = (prefix t (c # cs) \<or> str_includes cs t)"

section \<open>Core data types (index.ts)\<close>

datatype SeverityLevel = SEV_MILD | SEV_MODERATE | SEVERE

datatype RiskLevel = MILD | MODERATE | EMERGENCY

text \<open>The enum members are strings in the source; template literals print them.\<close>

fun severityString :: "SeverityLevel \<Rightarrow> string" where
  "severityString SEV_MILD = ''mild''"
| "severityString SEV_MODERATE = ''moderate''"
| "severityString SEVERE = ''severe''"

record Duration =
  dvalue :: real
  dunit :: string

record SymptomEntity =
  symptom :: string
  bodyPart :: "string option"
  severity :: SeverityLevel
  duration :: "Duration option"
  confidence :: real

record RiskAssessment =
  level :: RiskLevel
  a_confidence :: real
  reasoning :: "string list"
  recommendations :: "string list"

section \<open>Risk classifier (RiskClassifierImpl)\<close>

record DurationRange =
  dmin :: real
  dmax :: real
  runit :: string

record SymptomCondition =
  c_symptom :: string
  c_severity :: "SeverityLevel option"
  c_bodyPart :: "string option"
  c_duration :: "DurationRange option"
  required :: bool

record RiskRule =
  conditions :: "SymptomCondition list"
  riskLevel :: RiskLevel
  r_confidence :: real
  r_reasoning :: "string list"
  r_recommendations :: "string list"

text \<open>The three private fields of the class; the methods below take the object first.\<close>

record RiskClassifierImpl =
  riskRules :: "RiskRule list"
  emergencyKeywords :: "string list"
  symptomSeverityMap :: "string \<rightharpoonup> RiskLevel"

definition cond :: "string \<Rightarrow> SeverityLevel option \<Rightarrow> DurationRange option \<Rightarrow> bool
    \<Rightarrow> SymptomCondition" where
  "cond n sv du rq =
     \<lparr>c_symptom = n, c_severity = sv, c_bodyPart = None, c_duration = du, required = rq\<rparr>"

definition initialRiskRules :: "RiskRule list" where
  "initialRiskRules =
    [\<lparr>conditions = [cond ''chest pain'' (Some SEVERE) None True],
      riskLevel = EMERGENCY, r_confidence = 0.9,
      r_reasoning = [''Severe chest pain can indicate heart attack or other cardiac emergency''],
      r_recommendations = [''Contact emergency services immediately'',
                           ''Do not drive yourself to hospital'']\<rparr>,
     \<lparr>conditions = [cond ''shortness of breath'' (Some SEVERE) None True],
      riskLevel = EMERGENCY, r_confidence = 0.9,
      r_reasoning = [''Severe breathing difficulty requires immediate medical attention''],
      r_recommendations = [''Call emergency services now'',
                           ''Sit upright and try to stay calm'']\<rparr>,
     \<lparr>conditions = [cond ''headache'' (Some SEVERE) None True,
                    cond ''fever'' None None False],
      riskLevel = EMERGENCY, r_confidence = 0.8,
      r_reasoning = [''Severe headache with fever may indicate serious infection''],
      r_recommendations = [''Seek immediate medical attention'', ''Go to emergency room'']\<rparr>,
     \<lparr>conditions = [cond ''fever'' (Some SEV_MODERATE) None True,
                    cond ''cough'' None None False],
      riskLevel = MODERATE, r_confidence = 0.7,
      r_reasoning = [''Moderate fever with respiratory symptoms may indicate infection''],
      r_recommendations = [''Consult healthcare provider within 24 hours'',
                           ''Monitor temperature regularly'']\<rparr>,
     \<lparr>conditions = [cond ''stomach pain'' (Some SEV_MODERATE) None True,
                    cond ''nausea'' None None False],
      riskLevel = MODERATE, r_confidence = 0.6,
      r_reasoning = [''Persistent stomach pain with nausea should be evaluated''],
      r_recommendations = [''Schedule appointment with doctor'',
                           ''Avoid solid foods temporarily'']\<rparr>,
     \<lparr>conditions = [cond ''headache'' (Some SEV_MODERATE) None True,
                    cond ''headache'' None
                      (Some \<lparr>dmin = 2, dmax = 999, runit = ''days''\<rparr>) False],
      riskLevel = MODERATE, r_confidence = 0.6,
      r_reasoning = [''Persistent moderate headache may require medical evaluation''],
      r_recommendations = [''Consider seeing healthcare provider'', ''Keep headache diary'']\<rparr>,
     \<lparr>conditions = [cond ''headache'' (Some SEV_MILD) None True],
      riskLevel = MILD, r_confidence = 0.7,
      r_reasoning = [''Mild headache is usually manageable with self-care''],
      r_recommendations = [''Rest and hydration'', ''Over-the-counter pain relief if needed'']\<rparr>,
     \<lparr>conditions = [cond ''sore throat'' (Some SEV_MILD) None True],
      riskLevel = MILD, r_confidence = 0.7,
      r_reasoning = [''Mild sore throat often resolves with home care''],
      r_recommendations = [''Warm salt water gargle'', ''Stay hydrated'', ''Rest your voice'']\<rparr>,
     \<lparr>conditions = [cond ''runny nose'' None None True],
      riskLevel = MILD, r_confidence = 0.8,
      r_reasoning = [''Runny nose typically indicates minor cold or allergies''],
      r_recommendations = [''Rest and fluids'', ''Saline nasal rinse'',
                           ''Monitor for worsening'']\<rparr>]"

text \<open>\<open>SAFETY_CONSTRAINTS\<close> of constants.ts.\<close>

definition SAFETY_emergencyKeywords :: "string list" where
  "SAFETY_emergencyKeywords =
    [''chest pain'', ''difficulty breathing'', ''severe bleeding'',
     ''unconscious'', ''stroke'', ''heart attack'', ''allergic reaction'',
     ''severe headache'', ''can't breathe'', ''choking'']"

definition SAFETY_prohibitedAdvice :: "string list" where
  "SAFETY_prohibitedAdvice =
    [''take medication'', ''dosage'', ''prescription'', ''drug'',
     ''medicine name'', ''pills'', ''tablets'']"

definition SAFETY_requiredDisclaimers :: "string list" where
  "SAFETY_requiredDisclaimers =
    [''This system does not provide medical diagnosis'',
     ''Please consult a healthcare professional for medical advice'',
     ''In case of emergency, contact emergency services immediately'']"

definition initialEmergencyKeywords :: "string list" where
  "initialEmergencyKeywords = SAFETY_emergencyKeywords @
    [''unconscious'', ''can't breathe'', ''choking'', ''severe bleeding'',
     ''stroke symptoms'', ''heart attack'', ''allergic reaction'',
     ''severe pain'', ''difficulty swallowing'', ''confusion'',
     ''loss of consciousness'', ''severe dizziness'', ''fainting'']"

definition initialSymptomSeverityMap :: "string \<rightharpoonup> RiskLevel" where
  "initialSymptomSeverityMap = map_of
    [(''chest pain'', EMERGENCY), (''shortness of breath'', EMERGENCY),
     (''difficulty breathing'', EMERGENCY),
     (''fever'', MODERATE), (''stomach pain'', MODERATE),
     (''dizziness'', MODERATE), (''fatigue'', MODERATE),
     (''headache'', MILD), (''sore throat'', MILD), (''runny nose'', MILD),
     (''cough'', MILD), (''nausea'', MILD)]"

text \<open>The constructor.\<close>

definition newRiskClassifier :: RiskClassifierImpl where
  "newRiskClassifier =
     \<lparr>riskRules = initialRiskRules,
      emergencyKeywords = initialEmergencyKeywords,
      symptomSeverityMap = initialSymptomSeverityMap\<rparr>"

subsection \<open>checkEmergencyConditions\<close>

text \<open>The inner loop: the first keyword the symptom's name contains, ignoring case.\<close>

fun firstKeyword :: "string list \<Rightarrow> string \<Rightarrow> string option" where
  "firstKeyword [] name = None"
| "firstKeyword (k # ks) name =
     (if str_includes (toLowerCase name) (toLowerCase k) then Some k else firstKeyword ks name)"

text \<open>The outer loop: the first symptom that has such a keyword.\<close>

fun firstEmergencyKeyword :: "string list \<Rightarrow> SymptomEntity list \<Rightarrow> string option" where
  "firstEmergencyKeyword ks [] = None"
| "firstEmergencyKeyword ks (s # ss) =
     (case firstKeyword ks (symptom s) of
        Some k \<Rightarrow> Some k
      | None \<Rightarrow> firstEmergencyKeyword ks ss)"

definition isCritical :: "SymptomEntity \<Rightarrow> bool" where
  "isCritical s \<longleftrightarrow>
     (str_includes (symptom s) ''chest'' \<and> severity s = SEVERE) \<or>
     (str_includes (symptom s) ''breath'' \<and> severity s = SEVERE) \<or>
     (str_includes (symptom s) ''heart'' \<and> severity s = SEVERE)"

definition checkEmergencyConditions ::
    "RiskClassifierImpl \<Rightarrow> SymptomEntity list \<Rightarrow> RiskAssessment option" where
  "checkEmergencyConditions this symptoms =
     (case firstEmergencyKeyword (emergencyKeywords this) symptoms of
        Some keyword \<Rightarrow>
          Some \<lparr>level = EMERGENCY, a_confidence = 0.95,
                reasoning = [''Emergency keyword detected: '' @ keyword],
                recommendations = [''Contact emergency services immediately'',
                                   ''Do not delay seeking medical attention'']\<rparr>
      | None \<Rightarrow>
          (if length (filter isCritical symptoms) > 0
           then Some \<lparr>level = EMERGENCY, a_confidence = 0.9,
                      reasoning = [''Severe symptoms in critical body systems detected''],
                      recommendations =
                        [''Seek immediate emergency medical care'',
                         ''Call emergency services or go to nearest emergency room'']\<rparr>
           else None))"

subsection \<open>calculateRuleMatch\<close>

fun convertToHours :: "real \<Rightarrow> string \<Rightarrow> real" where
  "convertToHours v u =
     (if u = ''minutes'' then v / 60
      else if u = ''hours'' then v
      else if u = ''days'' then v * 24
      else if u = ''weeks'' then v * 24 * 7
      else v)"

definition checkDurationMatch :: "Duration \<Rightarrow> DurationRange \<Rightarrow> bool" where
  "checkDurationMatch symptomDuration conditionDuration =
     (let symptomHours = convertToHours (dvalue symptomDuration) (dunit symptomDuration);
          minHours = convertToHours (dmin conditionDuration) (runit conditionDuration);
          maxHours = convertToHours (dmax conditionDuration) (runit conditionDuration)
      in symptomHours \<ge> minHours \<and> symptomHours \<le> maxHours)"

definition matchingSymptoms :: "SymptomEntity list \<Rightarrow> SymptomCondition \<Rightarrow> SymptomEntity list" where
  "matchingSymptoms symptoms condition =
     filter (\<lambda>s. str_includes (toLowerCase (symptom s)) (toLowerCase (c_symptom condition))) symptoms"

text \<open>
  The score of one condition against the symptom that matched it, before the cap.
  An optional string that is present but empty is falsy in the source.
\<close>

definition conditionScore :: "SymptomCondition \<Rightarrow> SymptomEntity \<Rightarrow> real" where
  "conditionScore condition s =
     0.5
     + (if c_severity condition = Some (severity s) then 0.3 else 0)
     + (case c_bodyPart condition of
          None \<Rightarrow> 0
        | Some b \<Rightarrow> if b \<noteq> [] \<and> bodyPart s = Some b then 0.2 else 0)
     + (case (c_duration condition, duration s) of
          (Some cd, Some sd) \<Rightarrow> if checkDurationMatch sd cd then 0.2 else 0
        | _ \<Rightarrow> 0)"

text \<open>
  The loop over the rule's conditions, with \<open>totalScore\<close> and \<open>requiredMatches\<close>
  as accumulators; \<open>None\<close> is the early \<open>return 0\<close>.
\<close>

fun ruleLoop :: "SymptomEntity list \<Rightarrow> SymptomCondition list \<Rightarrow> real \<Rightarrow> nat
    \<Rightarrow> (real \<times> nat) option" where
  "ruleLoop symptoms [] totalScore requiredMatches = Some (totalScore, requiredMatches)"
| "ruleLoop symptoms (c # cs) totalScore requiredMatches =
     (case matchingSymptoms symptoms c of
        s # _ \<Rightarrow>
          ruleLoop symptoms cs (totalScore + min (conditionScore c s) 1.0)
            (if required c then requiredMatches + 1 else requiredMatches)
      | [] \<Rightarrow>
          if required c then None else ruleLoop symptoms cs totalScore requiredMatches)"

text \<open>A JavaScript number that may be NaN: a rule with no condition divides 0 by 0.\<close>

datatype jsnumber = NaN | Num real

definition calculateRuleMatch :: "SymptomEntity list \<Rightarrow> RiskRule \<Rightarrow> jsnumber" where
  "calculateRuleMatch symptoms rule =
     (let requiredConditions = length (filter required (conditions rule))
      in case ruleLoop symptoms (conditions rule) 0 0 of
           None \<Rightarrow> Num 0
         | Some (totalScore, requiredMatches) \<Rightarrow>
             if requiredMatches < requiredConditions then Num 0
             else if conditions rule = [] then NaN
             else Num (totalScore / real (length (conditions rule))))"

subsection \<open>applyRiskRules\<close>

text \<open>One iteration of the loop over the rules; \<open>NaN > 0.5\<close> is false.\<close>

definition bestMatchStep :: "SymptomEntity list \<Rightarrow> (RiskRule \<times> real) option \<Rightarrow> RiskRule
    \<Rightarrow> (RiskRule \<times> real) option" where
  "bestMatchStep symptoms bestMatch rule =
     (case calculateRuleMatch symptoms rule of
        NaN \<Rightarrow> bestMatch
      | Num matchScore \<Rightarrow>
          if matchScore > 0.5 \<and>
             (case bestMatch of None \<Rightarrow> True | Some (_, best) \<Rightarrow> matchScore > best)
          then Some (rule, matchScore)
          else bestMatch)"

fun bestMatchLoop :: "SymptomEntity list \<Rightarrow> (RiskRule \<times> real) option \<Rightarrow> RiskRule list
    \<Rightarrow> (RiskRule \<times> real) option" where
  "bestMatchLoop symptoms bestMatch [] = bestMatch"
| "bestMatchLoop symptoms bestMatch (rule # rules) =
     bestMatchLoop symptoms (bestMatchStep symptoms bestMatch rule) rules"

definition applyRiskRules ::
    "RiskClassifierImpl \<Rightarrow> SymptomEntity list \<Rightarrow> RiskAssessment option" where
  "applyRiskRules this symptoms =
     (case bestMatchLoop symptoms None (riskRules this) of
        Some (rule, matchScore) \<Rightarrow>
          Some \<lparr>level = riskLevel rule,
                a_confidence = r_confidence rule * matchScore,
                reasoning = r_reasoning rule,
                recommendations = r_recommendations rule\<rparr>
      | None \<Rightarrow> None)"

subsection \<open>assessBySymptomSeverity\<close>

fun escalateRiskLevel :: "RiskLevel \<Rightarrow> RiskLevel" where
  "escalateRiskLevel MILD = MODERATE"
| "escalateRiskLevel MODERATE = EMERGENCY"
| "escalateRiskLevel EMERGENCY = EMERGENCY"

fun getRiskLevelPriority :: "RiskLevel \<Rightarrow> nat" where
  "getRiskLevelPriority MILD = 1"
| "getRiskLevelPriority MODERATE = 2"
| "getRiskLevelPriority EMERGENCY = 3"

definition baseRisk :: "RiskClassifierImpl \<Rightarrow> SymptomEntity \<Rightarrow> RiskLevel" where
  "baseRisk this s =
     (case symptomSeverityMap this (symptom s) of Some l \<Rightarrow> l | None \<Rightarrow> MILD)"

definition adjustedRisk :: "RiskClassifierImpl \<Rightarrow> SymptomEntity \<Rightarrow> RiskLevel" where
  "adjustedRisk this s =
     (if severity s = SEVERE then escalateRiskLevel (baseRisk this s)
      else if severity s = SEV_MODERATE \<and> baseRisk this s = MILD then MODERATE
      else baseRisk this s)"

text \<open>The loop, with \<open>maxRiskLevel\<close>, \<open>totalConfidence\<close> and \<open>reasoning\<close> as accumulators.\<close>

fun severityLoop :: "RiskClassifierImpl \<Rightarrow> SymptomEntity list \<Rightarrow> RiskLevel \<Rightarrow> real
    \<Rightarrow> string list \<Rightarrow> RiskLevel \<times> real \<times> string list" where
  "severityLoop this [] maxRiskLevel totalConfidence rs = (maxRiskLevel, totalConfidence, rs)"
| "severityLoop this (s # ss) maxRiskLevel totalConfidence rs =
     severityLoop this ss
       (if getRiskLevelPriority (adjustedRisk this s) > getRiskLevelPriority maxRiskLevel
        then adjustedRisk this s else maxRiskLevel)
       (totalConfidence + confidence s)
       (rs @ [symptom s @ '' ('' @ severityString (severity s) @ '' severity)''])"

fun recommendationsFor :: "RiskLevel \<Rightarrow> string list" where
  "recommendationsFor EMERGENCY =
     [''Seek immediate medical attention'', ''Contact emergency services'']"
| "recommendationsFor MODERATE =
     [''Consult healthcare provider within 24-48 hours'', ''Monitor symptoms for changes'']"
| "recommendationsFor MILD =
     [''Self-care measures may be appropriate'',
      ''Contact healthcare provider if symptoms worsen'']"

text \<open>
  Only called on a non-empty list (\<open>classifyRisk\<close> returns before it on an empty one),
  where the division is by a positive length.
\<close>

definition assessBySymptomSeverity ::
    "RiskClassifierImpl \<Rightarrow> SymptomEntity list \<Rightarrow> RiskAssessment" where
  "assessBySymptomSeverity this symptoms =
     (case severityLoop this symptoms MILD 0 [] of
        (maxRiskLevel, totalConfidence, rs) \<Rightarrow>
          \<lparr>level = maxRiskLevel,
           a_confidence = min (totalConfidence / real (length symptoms)) 1.0,
           reasoning = rs,
           recommendations = recommendationsFor maxRiskLevel\<rparr>)"

subsection \<open>classifyRisk\<close>

definition classifyRisk :: "RiskClassifierImpl \<Rightarrow> SymptomEntity list \<Rightarrow> RiskAssessment" where
  "classifyRisk this symptoms =
     (if length symptoms = 0
      then \<lparr>level = MILD, a_confidence = 0.3,
            reasoning = [''No specific symptoms identified''],
            recommendations = [''Please describe your symptoms in more detail'']\<rparr>
      else case checkEmergencyConditions this symptoms of
             Some emergencyAssessment \<Rightarrow> emergencyAssessment
           | None \<Rightarrow>
               (case applyRiskRules this symptoms of
                  Some ruleBasedAssessment \<Rightarrow> ruleBasedAssessment
                | None \<Rightarrow> assessBySymptomSeverity this symptoms))"

section \<open>Regular expressions\<close>

text \<open>
  The fragment of JavaScript regular expressions the sources use, with a backtracking
  matcher. Every pattern in the sources carries the \<open>i\<close> flag, so a literal and the class
  \<open>[a-z]\<close> match ignoring case. A starred or plussed item is always a single character
  class in the sources. \<open>Group\<close> is the capture group number 1.
\<close>

datatype cclass =
    Digit      \<comment> \<open>\<open>\d\<close>\<close>
  | WordChar   \<comment> \<open>\<open>\w\<close>\<close>
  | Space      \<comment> \<open>\<open>\s\<close>\<close>
  | Dot        \<comment> \<open>\<open>.\<close>\<close>
  | AZSpace    \<comment> \<open>\<open>[a-z\s]\<close>\<close>

datatype regex =
    Lit string
  | One cclass
  | Star cclass
  | Plus cclass
  | Opt regex
  | Alt "regex list"
  | Seq "regex list"
  | WordB      \<comment> \<open>\<open>\b\<close>\<close>
  | Group regex

definition isDigit :: "char \<Rightarrow> bool" where
  "isDigit x \<longleftrightarrow> x \<in> set ''0123456789''"

definition isLetter :: "char \<Rightarrow> bool" where
  "isLetter x \<longleftrightarrow> lowerChar x \<in> set ''abcdefghijklmnopqrstuvwxyz''"

definition isWordChar :: "char \<Rightarrow> bool" where
  "isWordChar x \<longleftrightarrow> isLetter x \<or> isDigit x \<or> x = CHR ''_''"

text \<open>Tab, line feed, vertical tab, form feed, carriage return and the space.\<close>

definition isSpace :: "char \<Rightarrow> bool" where
  "isSpace x \<longleftrightarrow> x \<in> set [CHR 0x09, CHR 0x0A, CHR 0x0B, CHR 0x0C, CHR 0x0D, CHR '' '']"

fun matchClass :: "cclass \<Rightarrow> char \<Rightarrow> bool" where
  "matchClass Digit x = isDigit x"
| "matchClass WordChar x = isWordChar x"
| "matchClass Space x = isSpace x"
| "matchClass Dot x = (x \<noteq> CHR 0x0A \<and> x \<noteq> CHR 0x0D)"
| "matchClass AZSpace x = (isLetter x \<or> isSpace x)"

text \<open>
  A matcher state: the character before the current position (for \<open>\b\<close>), the text
  from the current position on, and what the group has captured.
\<close>

type_synonym mstate = "char option \<times> string \<times> string option"

definition isWordOpt :: "char option \<Rightarrow> bool" where
  "isWordOpt p = (case p of None \<Rightarrow> False | Some x \<Rightarrow> isWordChar x)"

text \<open>
  A literal at the current position, compared character by character ignoring case:
  the state after it, or nothing when it is not there.
\<close>

fun stripLit :: "string \<Rightarrow> char option \<Rightarrow> string \<Rightarrow> (char option \<times> string) option" where
  "stripLit [] p s = Some (p, s)"
| "stripLit (l # ls) p [] = None"
| "stripLit (l # ls) p (x # xs) =
     (if lowerChar x = lowerChar l then stripLit ls (Some x) xs else None)"

text \<open>
  A greedy repetition of a class: every number of characters it may take, the longest
  run first.
\<close>

fun starStates :: "cclass \<Rightarrow> char option \<Rightarrow> string \<Rightarrow> string option \<Rightarrow> mstate list" where
  "starStates k p [] c = [(p, [], c)]"
| "starStates k p (x # xs) c =
     (if matchClass k x then starStates k (Some x) xs c @ [(p, x # xs, c)]
      else [(p, x # xs, c)])"

text \<open>
  All the ways the pattern matches at the current position, as the states after the
  match, in the order a backtracking matcher tries them.
\<close>

fun rmatch :: "regex \<Rightarrow> mstate \<Rightarrow> mstate list" where
  "rmatch (Lit l) (p, s, c) =
     (case stripLit l p s of
        Some (p', s') \<Rightarrow> [(p', s', c)]
      | None \<Rightarrow> [])"
| "rmatch (One k) (p, s, c) =
     (case s of
        [] \<Rightarrow> []
      | x # xs \<Rightarrow> if matchClass k x then [(Some x, xs, c)] else [])"
| "rmatch (Star k) (p, s, c) = starStates k p s c"
| "rmatch (Plus k) (p, s, c) =
     (case s of
        [] \<Rightarrow> []
      | x # xs \<Rightarrow> if matchClass k x then starStates k (Some x) xs c else [])"
| "rmatch (Opt r) st = rmatch r st @ [st]"
| "rmatch (Alt rs) st = concat (map (\<lambda>r. rmatch r st) rs)"
| "rmatch (Seq []) st = [st]"
| "rmatch (Seq (r # rs)) st = concat (map (rmatch (Seq rs)) (rmatch r st))"
| "rmatch WordB (p, s, c) =
     (if isWordOpt p \<noteq> isWordOpt (case s of [] \<Rightarrow> None | x # _ \<Rightarrow> Some x)
      then [(p, s, c)] else [])"
| "rmatch (Group r) (p, s, c) =
     map (\<lambda>(p', s', _). (p', s', Some (take (length s - length s') s)))
       (rmatch r (p, s, c))"

text \<open>
  The leftmost match: the first position, from the current one on, where the pattern
  matches, with the first way it matches there.
\<close>

fun search :: "regex \<Rightarrow> char option \<Rightarrow> string \<Rightarrow> mstate option" where
  "search r p [] = (case rmatch r (p, [], None) of m # _ \<Rightarrow> Some m | [] \<Rightarrow> None)"
| "search r p (x # xs) =
     (case rmatch r (p, x # xs, None) of
        m # _ \<Rightarrow> Some m
      | [] \<Rightarrow> search r (Some x) xs)"

text \<open>\<open>RegExp.prototype.test\<close>.\<close>

definition regexTest :: "regex \<Rightarrow> string \<Rightarrow> bool" where
  "regexTest r s \<longleftrightarrow> search r None s \<noteq> None"

text \<open>\<open>match[1]\<close> of \<open>String.prototype.match\<close>, when the pattern matches.\<close>

definition matchGroup :: "regex \<Rightarrow> string \<Rightarrow> string option option" where
  "matchGroup r s = map_option (\<lambda>(_, _, c). c) (search r None s)"

text \<open>
  \<open>String.prototype.replace\<close> with a pattern that carries the \<open>g\<close> flag and a
  replacement without \<open>$\<close>: every match, left to right and without overlap, is replaced.
  After an empty match the next character is copied.
\<close>

function replaceAll :: "regex \<Rightarrow> string \<Rightarrow> char option \<Rightarrow> string \<Rightarrow> string" where
  "replaceAll r repl p s =
     (case rmatch r (p, s, None) of
        (p', s', _) # _ \<Rightarrow>
          if length s' < length s then repl @ replaceAll r repl p' s'
          else repl @ (case s of [] \<Rightarrow> [] | x # xs \<Rightarrow> x # replaceAll r repl (Some x) xs)
      | [] \<Rightarrow> (case s of [] \<Rightarrow> [] | x # xs \<Rightarrow> x # replaceAll r repl (Some x) xs))"
  by pat_completeness auto
termination
  by (relation "measure (\<lambda>(r, repl, p, s). length s)") auto

definition replace_g :: "string \<Rightarrow> regex \<Rightarrow> string \<Rightarrow> string" where
  "replace_g s r repl = replaceAll r repl None s"

text \<open>\<open>String.prototype.trim\<close>.\<close>

definition trim :: "string \<Rightarrow> string" where
  "trim s = rev (dropWhile isSpace (rev (dropWhile isSpace s)))"

section \<open>Session controller (SessionControllerImpl)\<close>

type_synonym SessionId = string

text \<open>A \<open>Date\<close> is its time value, in milliseconds.\<close>

type_synonym Date = int

datatype SessionStatus = ACTIVE | COMPLETED | EXPIRED | TERMINATED

datatype TurnType = user_input | system_response | clarification_question

record ConversationTurn =
  timestamp :: Date
  turn_type :: TurnType
  content :: string
  processedSymptoms :: "SymptomEntity list option"

record HealthSession =
  session_id :: SessionId
  startTime :: Date
  endTime :: "Date option"
  session_symptoms :: "SymptomEntity list"
  riskAssessment :: "RiskAssessment option"
  conversationHistory :: "ConversationTurn list"
  status :: SessionStatus

record SessionContext =
  ctx_symptoms :: "SymptomEntity list"
  questionsAsked :: nat
  ctx_riskLevel :: "RiskLevel option"
  sessionDuration :: int

text \<open>\<open>Partial<SessionContext>\<close>: every field may be absent.\<close>

record PartialSessionContext =
  p_symptoms :: "SymptomEntity list option"
  p_questionsAsked :: "nat option"
  p_riskLevel :: "RiskLevel option"
  p_sessionDuration :: "int option"

text \<open>
  The controller's state. Session objects are shared by reference: \<open>heap\<close> holds the
  objects, the \<open>sessions\<close> map holds references to them, so that an object can be
  looked at after its entry has left the map. \<open>pendingTimers\<close> are the timeouts
  scheduled and not cleared, each with the session it would expire.
\<close>

record SessionControllerImpl =
  heap :: "nat \<Rightarrow> HealthSession"
  nextRef :: nat
  sessions :: "SessionId \<rightharpoonup> nat"
  sessionTimeouts :: "SessionId \<rightharpoonup> nat"
  pendingTimers :: "nat \<rightharpoonup> SessionId"
  nextTimer :: nat

text \<open>
  A method returns normally (\<open>Inr\<close>) or throws (\<open>Inl\<close>), and in both cases leaves
  a state behind. Logging is not modelled.
\<close>

datatype error = Error string

type_synonym 'a outcome = "(error + 'a) \<times> SessionControllerImpl"

definition blankSession :: HealthSession where
  "blankSession = \<lparr>session_id = [], startTime = 0, endTime = None, session_symptoms = [],
     riskAssessment = None, conversationHistory = [], status = TERMINATED\<rparr>"

text \<open>The constructor (the periodic cleanup it starts is not modelled).\<close>

definition newSessionController :: SessionControllerImpl where
  "newSessionController =
     \<lparr>heap = (\<lambda>_. blankSession), nextRef = 0, sessions = Map.empty,
      sessionTimeouts = Map.empty, pendingTimers = Map.empty, nextTimer = 0\<rparr>"

definition setupSessionTimeout :: "SessionId \<Rightarrow> SessionControllerImpl \<Rightarrow> SessionControllerImpl" where
  "setupSessionTimeout sessionId st =
     st\<lparr>pendingTimers := (pendingTimers st)(nextTimer st \<mapsto> sessionId),
        sessionTimeouts := (sessionTimeouts st)(sessionId \<mapsto> nextTimer st),
        nextTimer := nextTimer st + 1\<rparr>"

definition clearTimeout :: "nat \<Rightarrow> SessionControllerImpl \<Rightarrow> SessionControllerImpl" where
  "clearTimeout h st = st\<lparr>pendingTimers := (pendingTimers st)(h := None)\<rparr>"

definition resetSessionTimeout :: "SessionId \<Rightarrow> SessionControllerImpl \<Rightarrow> SessionControllerImpl" where
  "resetSessionTimeout sessionId st =
     setupSessionTimeout sessionId
       (case sessionTimeouts st sessionId of
          Some existingTimeout \<Rightarrow> clearTimeout existingTimeout st
        | None \<Rightarrow> st)"

text \<open>\<open>sessionId\<close> is the value \<open>uuidv4()\<close> returned, \<open>now\<close> the clock.\<close>

definition startSession :: "SessionId \<Rightarrow> Date \<Rightarrow> SessionControllerImpl \<Rightarrow> SessionId outcome" where
  "startSession sessionId now st =
     (let session = \<lparr>session_id = sessionId, startTime = now, endTime = None, session_symptoms = [],
                      riskAssessment = None,
                      conversationHistory =
                        [\<lparr>timestamp = now, turn_type = system_response,
                          content = ''Session started'', processedSymptoms = None\<rparr>],
                      status = ACTIVE\<rparr>;
          r = nextRef st;
          st1 = st\<lparr>heap := (heap st)(r := session), nextRef := r + 1,
                   sessions := (sessions st)(sessionId \<mapsto> r)\<rparr>
      in (Inr sessionId, setupSessionTimeout sessionId st1))"

definition deleteSessionData :: "SessionId \<Rightarrow> SessionControllerImpl \<Rightarrow> unit outcome" where
  "deleteSessionData sessionId st =
     (case sessions st sessionId of
        Some r \<Rightarrow>
          (let st1 = st\<lparr>heap := (heap st)(r := (heap st r)
                          \<lparr>session_symptoms := [], conversationHistory := [],
                           riskAssessment := None\<rparr>)\<rparr>;
               st2 = st1\<lparr>sessions := (sessions st1)(sessionId := None)\<rparr>;
               st3 = (case sessionTimeouts st2 sessionId of
                        Some timeout \<Rightarrow>
                          (clearTimeout timeout st2)
                             \<lparr>sessionTimeouts := (sessionTimeouts st2)(sessionId := None)\<rparr>
                      | None \<Rightarrow> st2)
           in (Inr (), st3))
      | None \<Rightarrow> (Inr (), st))"

text \<open>\<open>now1\<close> and \<open>now2\<close> are the two readings of the clock.\<close>

definition endSession :: "Date \<Rightarrow> Date \<Rightarrow> SessionId \<Rightarrow> SessionControllerImpl \<Rightarrow> unit outcome" where
  "endSession now1 now2 sessionId st =
     (case sessions st sessionId of
        None \<Rightarrow> (Inr (), st)
      | Some r \<Rightarrow>
          (let session = heap st r;
               session1 = session\<lparr>endTime := Some now1, status := COMPLETED\<rparr>;
               session2 = session1\<lparr>conversationHistory := conversationHistory session1 @
                            [\<lparr>timestamp = now2, turn_type = system_response,
                              content = ''Session ended'', processedSymptoms = None\<rparr>]\<rparr>
           in deleteSessionData sessionId (st\<lparr>heap := (heap st)(r := session2)\<rparr>)))"

definition notFound :: "SessionId \<Rightarrow> error" where
  "notFound sessionId = Error (''Session not found: '' @ sessionId)"

definition getSessionContext :: "Date \<Rightarrow> SessionId \<Rightarrow> SessionControllerImpl
    \<Rightarrow> SessionContext outcome" where
  "getSessionContext now sessionId st =
     (case sessions st sessionId of
        None \<Rightarrow> (Inl (notFound sessionId), st)
      | Some r \<Rightarrow>
          (let session = heap st r;
               duration_ms = now - startTime session;
               asked = length (filter (\<lambda>turn. turn_type turn = clarification_question)
                                  (conversationHistory session))
           in (Inr \<lparr>ctx_symptoms = session_symptoms session,
                     questionsAsked = asked,
                     ctx_riskLevel = map_option level (riskAssessment session),
                     sessionDuration = duration_ms div 1000\<rparr>, st)))"

text \<open>\<open>Array.prototype.join\<close>.\<close>

fun join :: "string list \<Rightarrow> string \<Rightarrow> string" where
  "join [] sep = []"
| "join [x] sep = x"
| "join (x # y # ys) sep = x @ sep @ join (y # ys) sep"

definition updateSessionContext :: "Date \<Rightarrow> SessionId \<Rightarrow> PartialSessionContext
    \<Rightarrow> SessionControllerImpl \<Rightarrow> unit outcome" where
  "updateSessionContext now sessionId context st =
     (case sessions st sessionId of
        None \<Rightarrow> (Inl (notFound sessionId), st)
      | Some r \<Rightarrow>
          (let session = heap st r;
               session1 =
                 (case p_symptoms context of
                    Some syms \<Rightarrow>
                      session\<lparr>session_symptoms := syms,
                              conversationHistory := conversationHistory session @
                                [\<lparr>timestamp = now, turn_type = user_input,
                                  content = ''Symptoms updated: '' @ join (map symptom syms) '', '',
                                  processedSymptoms = Some syms\<rparr>]\<rparr>
                  | None \<Rightarrow> session);
               session2 =
                 (case (p_riskLevel context, riskAssessment session1) of
                    (Some l, None) \<Rightarrow>
                      session1\<lparr>riskAssessment :=
                        Some \<lparr>level = l, a_confidence = 0.7,
                              reasoning = [''Updated from session context''],
                              recommendations = [''See conversation for details'']\<rparr>\<rparr>
                  | _ \<Rightarrow> session1)
           in (Inr (), st\<lparr>heap := (heap st)(r := session2)\<rparr>)))"

definition addConversationTurn :: "SessionId \<Rightarrow> ConversationTurn \<Rightarrow> SessionControllerImpl
    \<Rightarrow> unit outcome" where
  "addConversationTurn sessionId turn st =
     (case sessions st sessionId of
        None \<Rightarrow> (Inl (notFound sessionId), st)
      | Some r \<Rightarrow>
          (let session = heap st r;
               st1 = st\<lparr>heap := (heap st)(r := session
                         \<lparr>conversationHistory := conversationHistory session @ [turn]\<rparr>)\<rparr>
           in (Inr (), resetSessionTimeout sessionId st1)))"

text \<open>The \<open>forEach\<close> of \<open>addSymptoms\<close>: a symptom already in the session is skipped.\<close>

fun pushNewSymptoms :: "SymptomEntity list \<Rightarrow> SymptomEntity list \<Rightarrow> SymptomEntity list" where
  "pushNewSymptoms existing [] = existing"
| "pushNewSymptoms existing (newSymptom # rest) =
     pushNewSymptoms
       (if list_ex (\<lambda>e. symptom e = symptom newSymptom \<and> bodyPart e = bodyPart newSymptom)
             existing
        then existing else existing @ [newSymptom])
       rest"

definition addSymptoms :: "Date \<Rightarrow> SessionId \<Rightarrow> SymptomEntity list \<Rightarrow> SessionControllerImpl
    \<Rightarrow> unit outcome" where
  "addSymptoms now sessionId syms st =
     (case sessions st sessionId of
        None \<Rightarrow> (Inl (notFound sessionId), st)
      | Some r \<Rightarrow>
          (let session = heap st r;
               st1 = st\<lparr>heap := (heap st)(r := session
                         \<lparr>session_symptoms := pushNewSymptoms (session_symptoms session) syms\<rparr>)\<rparr>
           in addConversationTurn sessionId
                \<lparr>timestamp = now, turn_type = user_input,
                 content = ''Added symptoms: '' @ join (map symptom syms) '', '',
                 processedSymptoms = Some syms\<rparr> st1))"

text \<open>Printing: \<open>Math.round\<close> is the floor of the number plus a half.\<close>

fun riskLevelString :: "RiskLevel \<Rightarrow> string" where
  "riskLevelString MILD = ''mild''"
| "riskLevelString MODERATE = ''moderate''"
| "riskLevelString EMERGENCY = ''emergency''"

fun showNat :: "nat \<Rightarrow> string" where
  "showNat n =
     (if n < 10 then [''0123456789'' ! n]
      else showNat (n div 10) @ [''0123456789'' ! (n mod 10)])"

definition showInt :: "int \<Rightarrow> string" where
  "showInt i = (if i < 0 then ''-'' @ showNat (nat (- i)) else showNat (nat i))"

definition mathRound :: "real \<Rightarrow> int" where
  "mathRound x = \<lfloor>x + 1 / 2\<rfloor>"

definition setRiskAssessment :: "Date \<Rightarrow> SessionId \<Rightarrow> RiskAssessment \<Rightarrow> SessionControllerImpl
    \<Rightarrow> unit outcome" where
  "setRiskAssessment now sessionId assessment st =
     (case sessions st sessionId of
        None \<Rightarrow> (Inl (notFound sessionId), st)
      | Some r \<Rightarrow>
          (let session = heap st r;
               st1 = st\<lparr>heap := (heap st)(r := session\<lparr>riskAssessment := Some assessment\<rparr>)\<rparr>
           in addConversationTurn sessionId
                \<lparr>timestamp = now, turn_type = system_response,
                 content = ''Risk assessment: '' @ riskLevelString (level assessment) @
                           '' (confidence: '' @
                           showInt (mathRound (a_confidence assessment * 100)) @ ''%)'',
                 processedSymptoms = None\<rparr> st1))"

definition getSessionById :: "SessionId \<Rightarrow> SessionControllerImpl \<Rightarrow> HealthSession option" where
  "getSessionById sessionId st = map_option (heap st) (sessions st sessionId)"

section \<open>Natural language processor (NLProcessorImpl)\<close>

datatype UserIntent =
  DESCRIBE_SYMPTOMS | ASK_CLARIFICATION | END_SESSION | REQUEST_HELP | UNKNOWN

text \<open>The keyword maps, as lists of entries in insertion order (the order of iteration).\<close>

definition symptomKeywords :: "(string \<times> string list) list" where
  "symptomKeywords =
    [(''headache'', [''headache'', ''head pain'', ''head ache'', ''migraine'', ''head hurts'']),
     (''fever'', [''fever'', ''temperature'', ''hot'', ''burning up'', ''feverish'', ''chills'']),
     (''cough'', [''cough'', ''coughing'', ''hacking'', ''throat clearing'']),
     (''stomach pain'', [''stomach pain'', ''stomach ache'', ''belly pain'', ''abdominal pain'',
                         ''tummy ache'']),
     (''nausea'', [''nausea'', ''nauseous'', ''sick to stomach'', ''queasy'',
                   ''feel like vomiting'']),
     (''dizziness'', [''dizzy'', ''dizziness'', ''lightheaded'', ''spinning'', ''vertigo'']),
     (''fatigue'', [''tired'', ''fatigue'', ''exhausted'', ''weak'', ''no energy'']),
     (''sore throat'', [''sore throat'', ''throat pain'', ''throat hurts'', ''scratchy throat'']),
     (''runny nose'', [''runny nose'', ''stuffy nose'', ''congestion'', ''blocked nose'']),
     (''shortness of breath'', [''shortness of breath'', ''hard to breathe'',
                                ''difficulty breathing'', ''breathless''])]"

definition bodyPartKeywords :: "(string \<times> string list) list" where
  "bodyPartKeywords =
    [(''head'', [''head'', ''skull'', ''forehead'', ''temple'']),
     (''chest'', [''chest'', ''lung'', ''heart'', ''breast'']),
     (''stomach'', [''stomach'', ''belly'', ''abdomen'', ''tummy'']),
     (''throat'', [''throat'', ''neck'']),
     (''back'', [''back'', ''spine'', ''lower back'', ''upper back'']),
     (''arm'', [''arm'', ''shoulder'', ''elbow'', ''wrist'', ''hand'']),
     (''leg'', [''leg'', ''thigh'', ''knee'', ''ankle'', ''foot''])]"

definition severityKeywords :: "(SeverityLevel \<times> string list) list" where
  "severityKeywords =
    [(SEV_MILD, [''mild'', ''slight'', ''little'', ''minor'', ''barely'', ''somewhat'']),
     (SEV_MODERATE, [''moderate'', ''medium'', ''noticeable'', ''bothering'', ''uncomfortable'']),
     (SEVERE, [''severe'', ''intense'', ''extreme'', ''terrible'', ''unbearable'',
               ''excruciating'', ''sharp'', ''stabbing''])]"

definition intentPatterns :: "(UserIntent \<times> regex list) list" where
  "intentPatterns =
    [(DESCRIBE_SYMPTOMS,
       [Seq [Lit ''i '', Alt [Lit ''have'', Lit ''feel'', Lit ''am experiencing'', Lit ''got'']],
        Seq [Lit ''my '',
             Alt [Lit ''head'', Lit ''chest'', Lit ''stomach'', Lit ''throat'', Lit ''back''],
             Lit '' '', Alt [Lit ''hurts'', Lit ''aches'', Lit ''feels'']],
        Seq [Lit ''i've been '', Alt [Lit ''feeling'', Lit ''having'', Lit ''experiencing'']],
        Seq [Lit ''there's '', Alt [Lit ''pain'', Lit ''ache'', Lit ''discomfort'']]]),
     (END_SESSION,
       [Alt [Lit ''goodbye'', Lit ''bye'', Lit ''end'', Lit ''stop'', Lit ''quit'', Lit ''exit'',
             Lit ''done'', Lit ''finished''],
        Lit ''that's all'',
        Lit ''thank you'']),
     (REQUEST_HELP,
       [Alt [Lit ''help'', Lit ''assist'', Lit ''what should i do'', Lit ''what do you recommend''],
        Alt [Lit ''can you help'', Lit ''need help'', Lit ''don't know'']]),
     (ASK_CLARIFICATION,
       [Alt [Lit ''what do you mean'', Lit ''can you repeat'', Lit ''i don't understand''],
        Alt [Lit ''clarify'', Lit ''explain'', Lit ''what'']])]"

definition unknownPatterns :: "regex list" where
  "unknownPatterns =
    [Lit ''i don't know'', Lit ''not sure'', Lit ''don't understand'', Lit ''confused'',
     Lit ''unclear'', Lit ''can't tell'', Lit ''hard to say'', Lit ''not certain'',
     Lit ''maybe'', Lit ''i think'', Lit ''possibly'', Lit ''unsure'']"

subsection \<open>extractSeverity\<close>

text \<open>The first entry of a keyword map one of whose keywords the text contains.\<close>

fun firstEntry :: "('k \<times> string list) list \<Rightarrow> string \<Rightarrow> 'k option" where
  "firstEntry [] text = None"
| "firstEntry ((k, keywords) # rest) text =
     (if list_ex (\<lambda>keyword. str_includes text keyword) keywords then Some k
      else firstEntry rest text)"

definition extractSeverity :: "string \<Rightarrow> SeverityLevel" where
  "extractSeverity text =
     (case firstEntry severityKeywords (toLowerCase text) of
        Some sv \<Rightarrow> sv
      | None \<Rightarrow> SEV_MILD)"

subsection \<open>extractDuration\<close>

text \<open>A pattern of the list: with a fixed value, or with the value in the group.\<close>

datatype durationPattern =
    Counted regex string
  | Fixed regex real string

definition counted :: "regex \<Rightarrow> regex" where
  "counted word = Seq [Group (Plus Digit), Star Space, word, Opt (Lit ''s'')]"

definition durationPatterns :: "durationPattern list" where
  "durationPatterns =
    [Counted (counted (Alt [Lit ''minute'', Lit ''min''])) ''minutes'',
     Counted (counted (Alt [Lit ''hour'', Lit ''hr''])) ''hours'',
     Counted (counted (Lit ''day'')) ''days'',
     Counted (counted (Lit ''week'')) ''weeks'',
     Fixed (Alt [Lit ''yesterday'', Lit ''1 day'']) 1 ''days'',
     Fixed (Alt [Lit ''this morning'', Lit ''today'']) 1 ''hours'',
     Fixed (Lit ''last night'') 8 ''hours'',
     Fixed (Lit ''few days'') 3 ''days'',
     Fixed (Lit ''couple days'') 2 ''days'',
     Fixed (Lit ''few hours'') 3 ''hours'',
     Fixed (Lit ''all day'') 12 ''hours'',
     Fixed (Lit ''since morning'') 6 ''hours'']"

text \<open>\<open>parseInt\<close> on a string of decimal digits.\<close>

definition digitValue :: "char \<Rightarrow> nat" where
  "digitValue d = (case map_of (zip ''0123456789'' [0 ..< 10]) d of Some v \<Rightarrow> v | None \<Rightarrow> 0)"

definition parseDigits :: "string \<Rightarrow> nat" where
  "parseDigits ds = foldl (\<lambda>acc d. 10 * acc + digitValue d) 0 ds"

fun durationLoop :: "durationPattern list \<Rightarrow> string \<Rightarrow> Duration option" where
  "durationLoop [] text = None"
| "durationLoop (Fixed r v u # rest) text =
     (if regexTest r text then Some \<lparr>dvalue = v, dunit = u\<rparr> else durationLoop rest text)"
| "durationLoop (Counted r u # rest) text =
     (case matchGroup r text of
        Some (Some digits) \<Rightarrow>
          if parseDigits digits > 0
          then Some \<lparr>dvalue = real (parseDigits digits), dunit = u\<rparr>
          else durationLoop rest text
      | _ \<Rightarrow> durationLoop rest text)"

definition extractDuration :: "string \<Rightarrow> Duration option" where
  "extractDuration text = durationLoop durationPatterns (toLowerCase text)"

subsection \<open>extractSymptoms\<close>

definition symptomBodyPartMap :: "string \<rightharpoonup> string" where
  "symptomBodyPartMap = map_of
    [(''headache'', ''head''), (''sore throat'', ''throat''),
     (''stomach pain'', ''stomach''), (''shortness of breath'', ''chest'')]"

definition extractBodyPart :: "string \<Rightarrow> string \<Rightarrow> string option" where
  "extractBodyPart text name =
     (case firstEntry bodyPartKeywords text of
        Some part \<Rightarrow> Some part
      | None \<Rightarrow> symptomBodyPartMap name)"

definition calculateConfidence :: "string \<Rightarrow> string \<Rightarrow> string \<Rightarrow> real" where
  "calculateConfidence text keyword name =
     (let c0 = 0.5;
          c1 = (if str_includes text name then c0 + 0.3 else c0);
          relatedKeywords = (case map_of symptomKeywords name of Some ks \<Rightarrow> ks | None \<Rightarrow> []);
          matchCount = length (filter (\<lambda>k. str_includes text k) relatedKeywords);
          c2 = c1 + min (real matchCount * 0.1) 0.3;
          c3 = (if extractSeverity text \<noteq> SEV_MILD then c2 + 0.1 else c2);
          c4 = (if extractDuration text \<noteq> None then c3 + 0.1 else c3)
      in min c4 1.0)"

text \<open>The loop over the symptom map, with the list built so far.\<close>

fun symptomLoop :: "(string \<times> string list) list \<Rightarrow> string \<Rightarrow> SymptomEntity list
    \<Rightarrow> SymptomEntity list" where
  "symptomLoop [] text acc = acc"
| "symptomLoop ((name, keywords) # rest) text acc =
     (case find (\<lambda>keyword. str_includes text keyword) keywords of
        Some keyword \<Rightarrow>
          (let entity = \<lparr>symptom = name,
                          bodyPart = extractBodyPart text name,
                          severity = extractSeverity text,
                          duration = extractDuration text,
                          confidence = calculateConfidence text keyword name\<rparr>
           in symptomLoop rest text
                (if \<not> list_ex (\<lambda>s. symptom s = name) acc then acc @ [entity] else acc))
      | None \<Rightarrow> symptomLoop rest text acc)"

definition generalHealthTerms :: "string list" where
  "generalHealthTerms =
    [''pain'', ''ache'', ''hurt'', ''discomfort'', ''problem'', ''issue'',
     ''sick'', ''unwell'', ''not feeling good'', ''feel bad'']"

definition extractGeneralSymptom :: "string \<Rightarrow> SymptomEntity option" where
  "extractGeneralSymptom text =
     (if list_ex (\<lambda>term. str_includes text term) generalHealthTerms
      then Some \<lparr>symptom = ''general discomfort'', bodyPart = None,
                 severity = extractSeverity text, duration = extractDuration text,
                 confidence = 0.3\<rparr>
      else None)"

definition extractSymptoms :: "string \<Rightarrow> SymptomEntity list" where
  "extractSymptoms text =
     (let normalizedText = trim (toLowerCase text);
          found = symptomLoop symptomKeywords normalizedText []
      in if length found = 0
         then (case extractGeneralSymptom normalizedText of
                 Some generalSymptom \<Rightarrow> [generalSymptom]
               | None \<Rightarrow> [])
         else found)"

subsection \<open>detectIntent\<close>

definition containsSymptomKeywords :: "string \<Rightarrow> bool" where
  "containsSymptomKeywords text =
     list_ex (\<lambda>(_, keywords). list_ex (\<lambda>keyword. str_includes text keyword) keywords)
       symptomKeywords"

text \<open>The inner loop: some pattern of the list matches the text.\<close>

definition anyPatternMatches :: "regex list \<Rightarrow> string \<Rightarrow> bool" where
  "anyPatternMatches patterns text = list_ex (\<lambda>pattern. regexTest pattern text) patterns"

text \<open>The loop over the intent map: the first intent one of whose patterns matches.\<close>

fun intentLoop :: "(UserIntent \<times> regex list) list \<Rightarrow> string \<Rightarrow> UserIntent option" where
  "intentLoop [] text = None"
| "intentLoop ((intent, patterns) # rest) text =
     (if anyPatternMatches patterns text then Some intent else intentLoop rest text)"

definition detectIntent :: "string \<Rightarrow> UserIntent" where
  "detectIntent text =
     (let normalizedText = trim (toLowerCase text)
      in if anyPatternMatches unknownPatterns normalizedText then UNKNOWN
         else case intentLoop intentPatterns normalizedText of
                Some intent \<Rightarrow> intent
              | None \<Rightarrow>
                  if containsSymptomKeywords normalizedText then DESCRIBE_SYMPTOMS
                  else REQUEST_HELP)"

subsection \<open>analyzeTextComplexity\<close>

record TextComplexity =
  hasSymptoms :: bool
  hasBodyPart :: bool
  hasSeverity :: bool
  hasDuration :: bool
  isAmbiguous :: bool

definition analyzeTextComplexity :: "string \<Rightarrow> TextComplexity" where
  "analyzeTextComplexity text =
     (let found = extractSymptoms text;
          hasSymptoms' = length found > 0;
          hasBodyPart' = list_ex (\<lambda>s. bodyPart s \<noteq> None) found;
          hasSeverity' = (extractSeverity text \<noteq> SEV_MILD);
          hasDuration' = (extractDuration text \<noteq> None)
      in \<lparr>hasSymptoms = hasSymptoms', hasBodyPart = hasBodyPart',
          hasSeverity = hasSeverity', hasDuration = hasDuration',
          isAmbiguous = (hasSymptoms' \<and> (\<not> hasBodyPart' \<and> \<not> hasSeverity' \<and> \<not> hasDuration'))\<rparr>)"

section \<open>Ambiguity detector (AmbiguityDetectorImpl)\<close>

text \<open>The number of pieces \<open>split(' ')\<close> returns: one more than the number of spaces.\<close>

definition splitLength :: "string \<Rightarrow> nat" where
  "splitLength s = length (filter (\<lambda>x. x = CHR '' '') s) + 1"

definition uncertaintyMarkers :: "string list" where
  "uncertaintyMarkers = [''maybe'', ''might'', ''could be'', ''not sure'', ''think'', ''possibly'']"

text \<open>
  On an empty symptom list the average is 0 divided by 0, which is NaN, and the
  comparison of NaN with 0.5 is false.
\<close>

definition getAmbiguityScore :: "string \<Rightarrow> SymptomEntity list \<Rightarrow> real" where
  "getAmbiguityScore text syms =
     (let s0 = (if length syms = 0 then 0.8 else 0);
          lowConfidence =
            (syms \<noteq> [] \<and> sum_list (map confidence syms) / real (length syms) < 0.5);
          s1 = (if lowConfidence then s0 + 0.4 else s0);
          analysis = analyzeTextComplexity text;
          s2 = (if \<not> hasBodyPart analysis then s1 + 0.2 else s1);
          s3 = (if \<not> hasSeverity analysis then s2 + 0.2 else s2);
          s4 = (if \<not> hasDuration analysis then s3 + 0.1 else s3);
          s5 = (if splitLength (trim text) < 3 then s4 + 0.3 else s4);
          s6 = (if list_ex (\<lambda>marker. str_includes (toLowerCase text) marker) uncertaintyMarkers
                then s5 + 0.2 else s5)
      in min s6 1.0)"

definition isAmbiguousText :: "string \<Rightarrow> SymptomEntity list \<Rightarrow> bool" where
  "isAmbiguousText text syms \<longleftrightarrow> getAmbiguityScore text syms > 0.5"

section \<open>Safety guardian (SafetyGuardianImpl)\<close>

text \<open>
  The three private fields of the class. A \<open>Set\<close> is the list of its members in
  insertion order; \<open>newSet\<close> is its constructor, which keeps the first occurrence
  of a member.
\<close>

record SafetyGuardianImpl =
  prohibitedTerms :: "string list"
  medicalDisclaimers :: "string list"
  g_emergencyKeywords :: "string list"

fun setAdd :: "'a list \<Rightarrow> 'a \<Rightarrow> 'a list" where
  "setAdd members x = (if x \<in> set members then members else members @ [x])"

definition newSet :: "'a list \<Rightarrow> 'a list" where
  "newSet xs = foldl setAdd [] xs"

definition newSafetyGuardian :: SafetyGuardianImpl where
  "newSafetyGuardian =
     \<lparr>prohibitedTerms = newSet (SAFETY_prohibitedAdvice @
        [''diagnosis'', ''diagnose'', ''disease'', ''condition'',
         ''prescription'', ''prescribe'', ''medication dosage'',
         ''take pills'', ''drug name'', ''medicine name'',
         ''treatment plan'', ''medical treatment'',
         ''cure'', ''heal'', ''fix'', ''solve'',
         ''definitely have'', ''certainly have'', ''you have'',
         ''suffering from'', ''infected with'', ''sick with'']),
      medicalDisclaimers = SAFETY_requiredDisclaimers @
        [''This system provides general health information only and is not a substitute for professional medical advice.'',
         ''Always consult with qualified healthcare professionals for medical concerns and treatment decisions.'',
         ''In case of medical emergency, contact emergency services immediately.'',
         ''This guidance is for informational purposes only and should not replace professional medical consultation.''],
      g_emergencyKeywords = newSet (SAFETY_emergencyKeywords @
        [''heart attack'', ''stroke'', ''seizure'', ''overdose'',
         ''severe allergic reaction'', ''anaphylaxis'',
         ''loss of consciousness'', ''severe trauma'',
         ''major bleeding'', ''compound fracture'',
         ''severe burns'', ''poisoning''])\<rparr>"

subsection \<open>validateResponse\<close>

record ValidationResult =
  isValid :: bool
  violations :: "string list"

definition diagnosisPatterns :: "regex list" where
  "diagnosisPatterns =
    [Seq [Lit ''you have '', Plus AZSpace, Lit '' disease''],
     Lit ''you are diagnosed with'',
     Lit ''this is definitely'',
     Lit ''you suffer from'',
     Lit ''you are sick with'']"

definition prescriptionPatterns :: "regex list" where
  "prescriptionPatterns =
    [Seq [Lit ''take '', Plus Digit, Star Dot, Lit ''mg''],
     Seq [Lit ''prescribe'', Opt (Lit ''d''), Lit '' medication''],
     Lit ''dosage of'',
     Seq [Lit ''take'', Star Dot, Lit ''pill'', Opt (Lit ''s'')],
     Seq [Lit ''medication'', Star Dot, Lit ''time'', Opt (Lit ''s''), Lit '' per day'']]"

text \<open>
  The check both \<open>validateResponse\<close> and \<open>addMedicalDisclaimer\<close> make: the
  lower-cased response contains the first 20 characters of a lower-cased required
  disclaimer.
\<close>

definition hasDisclaimer :: "string \<Rightarrow> bool" where
  "hasDisclaimer response =
     list_ex (\<lambda>disclaimer. str_includes (toLowerCase response) (take 20 (toLowerCase disclaimer)))
       SAFETY_requiredDisclaimers"

definition validateResponse :: "SafetyGuardianImpl \<Rightarrow> string \<Rightarrow> ValidationResult" where
  "validateResponse this response =
     (let lowerResponse = toLowerCase response;
          v1 = map (\<lambda>term. ''Contains prohibited medical term: '' @ term)
                 (filter (\<lambda>term. str_includes lowerResponse (toLowerCase term))
                    (prohibitedTerms this));
          v2 = (if anyPatternMatches diagnosisPatterns response
                then v1 @ [''Contains diagnostic language''] else v1);
          v3 = (if anyPatternMatches prescriptionPatterns response
                then v2 @ [''Contains prescription advice''] else v2);
          v4 = (if \<not> hasDisclaimer response \<and> length response > 50
                then v3 @ [''Missing required medical disclaimer''] else v3)
      in \<lparr>isValid = (length v4 = 0), violations = v4\<rparr>)"

subsection \<open>addMedicalDisclaimer\<close>

definition emergencyDisclaimer :: string where
  "emergencyDisclaimer =
     ''This guidance is for informational purposes only. In emergency situations, contact emergency services immediately.''"

definition generalDisclaimer :: string where
  "generalDisclaimer =
     ''This system provides general guidance only and cannot replace professional medical advice.''"

text \<open>
  \<open>rnd\<close> is the value \<open>Math.random()\<close> returned. An index outside the array reads
  \<open>undefined\<close>, which the template literal prints.
\<close>

definition randomDisclaimer :: "real \<Rightarrow> string" where
  "randomDisclaimer rnd =
     (let i = \<lfloor>rnd * real (length SAFETY_requiredDisclaimers)\<rfloor>
      in if 0 \<le> i \<and> i < int (length SAFETY_requiredDisclaimers)
         then SAFETY_requiredDisclaimers ! nat i
         else ''undefined'')"

definition addMedicalDisclaimer :: "real \<Rightarrow> string \<Rightarrow> string" where
  "addMedicalDisclaimer rnd response =
     (if hasDisclaimer response then response
      else
        let lowerResponse = toLowerCase response;
            selectedDisclaimer =
              (if str_includes lowerResponse ''emergency'' \<or> str_includes lowerResponse ''urgent''
               then emergencyDisclaimer
               else if str_includes lowerResponse ''recommend'' \<or>
                       str_includes lowerResponse ''suggest''
               then generalDisclaimer
               else randomDisclaimer rnd)
        in response @ '' '' @ selectedDisclaimer)"

subsection \<open>filterProhibitedContent\<close>

definition replacements :: "(string \<times> string) list" where
  "replacements =
    [(''take medication'', ''consider consulting a healthcare provider about treatment options''),
     (''dosage'', ''appropriate treatment''),
     (''prescription'', ''medical treatment''),
     (''drug'', ''treatment''),
     (''pills'', ''medication''),
     (''tablets'', ''treatment''),
     (''you have'', ''your symptoms suggest''),
     (''diagnosed with'', ''symptoms consistent with''),
     (''definitely'', ''possibly''),
     (''certainly'', ''likely'')]"

definition medicationPatterns :: "regex list" where
  "medicationPatterns =
    [Seq [WordB, Plus WordChar, Lit ''cillin'', WordB],
     Seq [WordB, Plus WordChar, Lit ''prazole'', WordB],
     Seq [WordB, Lit ''ibuprofen'', WordB],
     Seq [WordB, Lit ''acetaminophen'', WordB],
     Seq [WordB, Lit ''aspirin'', WordB],
     Seq [WordB, Lit ''tylenol'', WordB],
     Seq [WordB, Lit ''advil'', WordB]]"

definition filterProhibitedContent :: "string \<Rightarrow> string" where
  "filterProhibitedContent text =
     (let filtered1 = foldl (\<lambda>filteredText (prohibited, replacement).
                               replace_g filteredText (Lit prohibited) replacement)
                        text replacements
      in foldl (\<lambda>filteredText pattern. replace_g filteredText pattern ''appropriate medication'')
           filtered1 medicationPatterns)"

subsection \<open>enforceEmergencyProtocol\<close>

definition hasEmergencyContact :: "string list \<Rightarrow> bool" where
  "hasEmergencyContact recs =
     list_ex (\<lambda>rec. str_includes (toLowerCase rec) ''911'' \<or>
                     str_includes (toLowerCase rec) ''emergency services'' \<or>
                     str_includes (toLowerCase rec) ''call emergency'') recs"

definition hasUrgencyMessage :: "string list \<Rightarrow> bool" where
  "hasUrgencyMessage recs =
     list_ex (\<lambda>rec. str_includes (toLowerCase rec) ''immediately'' \<or>
                     str_includes (toLowerCase rec) ''do not delay'' \<or>
                     str_includes (toLowerCase rec) ''urgent'') recs"

definition enforceEmergencyProtocol :: "RiskAssessment \<Rightarrow> RiskAssessment" where
  "enforceEmergencyProtocol assessment =
     (if level assessment \<noteq> EMERGENCY then assessment
      else
        let recs0 = recommendations assessment;
            recs1 = (if \<not> hasEmergencyContact recs0
                     then ''Contact emergency services immediately by calling 911'' # recs0
                     else recs0);
            recs2 = (if \<not> hasUrgencyMessage recs1
                     then recs1 @ [''Do not delay seeking medical attention'']
                     else recs1);
            enhancedConfidence = max (a_confidence assessment) 0.85
        in assessment
             \<lparr>a_confidence := enhancedConfidence,
              recommendations := recs2,
              reasoning := reasoning assessment @
                 [''Emergency protocol enforced by safety guardian'']\<rparr>)"

subsection \<open>generateSafeResponse\<close>

fun fallbackTemplate :: "RiskLevel \<Rightarrow> string" where
  "fallbackTemplate EMERGENCY =
     ''Based on your symptoms, this appears to be a serious condition requiring immediate medical attention. Please contact emergency services right away.''"
| "fallbackTemplate MODERATE =
     ''Your symptoms suggest you should consult with a healthcare professional for proper evaluation and guidance.''"
| "fallbackTemplate MILD =
     ''Your symptoms appear to be mild. Consider rest and monitoring your condition, but consult a healthcare provider if symptoms worsen.''"

definition generateFallbackResponse :: "real \<Rightarrow> RiskAssessment \<Rightarrow> string" where
  "generateFallbackResponse rnd assessment =
     addMedicalDisclaimer rnd (fallbackTemplate (level assessment))"

text \<open>\<open>rnd1\<close> and \<open>rnd2\<close> are the random numbers the two disclaimer picks draw.\<close>

definition generateSafeResponse :: "SafetyGuardianImpl \<Rightarrow> real \<Rightarrow> real \<Rightarrow> string
    \<Rightarrow> RiskAssessment \<Rightarrow> string" where
  "generateSafeResponse this rnd1 rnd2 originalResponse assessment =
     (let safeResponse = addMedicalDisclaimer rnd1 (filterProhibitedContent originalResponse);
          validation = validateResponse this safeResponse
      in if \<not> isValid validation then generateFallbackResponse rnd2 assessment
         else safeResponse)"

section \<open>The specification's formulas\<close>

text \<open>
  The score of one condition as the specification words it: nothing when no symptom
  matches the condition, otherwise the capped sum of the base and the three bonuses,
  taken on the first matching symptom.
\<close>

definition specConditionScore :: "SymptomEntity list \<Rightarrow> SymptomCondition \<Rightarrow> real" where
  "specConditionScore symptoms c =
     (case matchingSymptoms symptoms c of
        [] \<Rightarrow> 0
      | s # _ \<Rightarrow> min (conditionScore c s) 1)"

definition requiredUnsatisfied :: "SymptomEntity list \<Rightarrow> SymptomCondition list \<Rightarrow> bool" where
  "requiredUnsatisfied symptoms cs =
     list_ex (\<lambda>c. required c \<and> matchingSymptoms symptoms c = []) cs"

definition specRuleScore :: "SymptomEntity list \<Rightarrow> RiskRule \<Rightarrow> real" where
  "specRuleScore symptoms rule =
     (if requiredUnsatisfied symptoms (conditions rule) then 0
      else sum_list (map (specConditionScore symptoms) (conditions rule))
             / real (length (conditions rule)))"

text \<open>
  The tier the specification gives a symptom in the severity fallback: the base tier, one
  step up only when the severity is severe.
\<close>

definition specAdjustedRisk :: "RiskClassifierImpl \<Rightarrow> SymptomEntity \<Rightarrow> RiskLevel" where
  "specAdjustedRisk this s =
     (if severity s = SEVERE then escalateRiskLevel (baseRisk this s) else baseRisk this s)"

text \<open>The patterns the intent map holds for an intent (\<open>Map.prototype.get\<close>).\<close>

definition patternsOf :: "UserIntent \<Rightarrow> regex list" where
  "patternsOf intent = (case map_of intentPatterns intent of Some ps \<Rightarrow> ps | None \<Rightarrow> [])"

text \<open>
  The disclaimer \<open>addMedicalDisclaimer\<close> appends to the fallback template of a level:
  the template's own wording selects it for emergency and moderate, the random number for
  mild.
\<close>

fun fallbackDisclaimer :: "real \<Rightarrow> RiskLevel \<Rightarrow> string" where
  "fallbackDisclaimer rnd EMERGENCY = emergencyDisclaimer"
| "fallbackDisclaimer rnd MODERATE = generalDisclaimer"
| "fallbackDisclaimer rnd MILD = randomDisclaimer rnd"

section \<open>Sample inputs\<close>

definition mildHeadache :: SymptomEntity where
  "mildHeadache = \<lparr>symptom = ''headache'', bodyPart = Some ''head'', severity = SEV_MILD,
                    duration = None, confidence = 0.8\<rparr>"

definition mildChestPain :: SymptomEntity where
  "mildChestPain = \<lparr>symptom = ''Chest Pain'', bodyPart = None, severity = SEV_MILD,
                     duration = None, confidence = 0.5\<rparr>"

definition moderateCough :: SymptomEntity where
  "moderateCough = \<lparr>symptom = ''cough'', bodyPart = None, severity = SEV_MODERATE,
                     duration = None, confidence = 0.8\<rparr>"

definition severeNausea :: SymptomEntity where
  "severeNausea = \<lparr>symptom = ''nausea'', bodyPart = None, severity = SEVERE,
                    duration = None, confidence = 0.6\<rparr>"

definition unsureCough :: SymptomEntity where
  "unsureCough = \<lparr>symptom = ''cough'', bodyPart = None, severity = SEV_MILD,
                   duration = None, confidence = 0\<rparr>"

definition emergencyAssessment :: RiskAssessment where
  "emergencyAssessment =
     \<lparr>level = EMERGENCY, a_confidence = 0.95,
      reasoning = [''Emergency keyword detected: chest pain''],
      recommendations = [''Contact emergency services immediately'',
                         ''Do not delay seeking medical attention'']\<rparr>"

section \<open>Properties of the string functions\<close>

lemma lowerChar_capitals:
  "map lowerChar ''ABCDEFGHIJKLMNOPQRSTUVWXYZ'' = ''abcdefghijklmnopqrstuvwxyz''"
  by simp

lemma lowerChar_other:
  "c \<notin> set ''ABCDEFGHIJKLMNOPQRSTUVWXYZ'' \<Longrightarrow> lowerChar c = c"
  by (cases c) simp

lemma toLowerCase_small: "toLowerCase ''Chest PAIN, can't breathe!'' = ''chest pain, can't breathe!''"
  by (simp add: toLowerCase_def)

section \<open>Properties of the risk classifier\<close>

subsection \<open>Emergency keywords\<close>

lemma firstKeyword_hit:
  "k \<in> set ks \<Longrightarrow> str_includes (toLowerCase n) (toLowerCase k) \<Longrightarrow> firstKeyword ks n \<noteq> None"
  by (induction ks) auto

lemma firstEmergencyKeyword_hit:
  "s \<in> set ss \<Longrightarrow> k \<in> set ks \<Longrightarrow> str_includes (toLowerCase (symptom s)) (toLowerCase k)
   \<Longrightarrow> firstEmergencyKeyword ks ss \<noteq> None"
  by (induction ss) (auto dest: firstKeyword_hit split: option.splits)

lemma enforce_floor:
  "level a = EMERGENCY \<Longrightarrow> a_confidence (enforceEmergencyProtocol a) \<ge> 0.85"
  by (simp add: enforceEmergencyProtocol_def Let_def)

subsection \<open>Rule matching in closed form\<close>

lemma ruleLoop_closed:
  "ruleLoop ss cs t r =
     (if requiredUnsatisfied ss cs then None
      else Some (t + sum_list (map (specConditionScore ss) cs), r + length (filter required cs)))"
  by (induction cs arbitrary: t r)
     (auto simp: requiredUnsatisfied_def specConditionScore_def split: list.splits)

lemma calculateRuleMatch_closed:
  "calculateRuleMatch ss rule =
     (if requiredUnsatisfied ss (conditions rule) then Num 0
      else if conditions rule = [] then NaN
      else Num (sum_list (map (specConditionScore ss) (conditions rule))
                  / real (length (conditions rule))))"
  by (simp add: calculateRuleMatch_def ruleLoop_closed Let_def)

lemma conditionScore_pos: "0 < conditionScore c s"
  by (simp add: conditionScore_def add_pos_nonneg split: option.splits prod.splits)

lemma specConditionScore_bounds:
  "0 \<le> specConditionScore ss c \<and> specConditionScore ss c \<le> 1"
  using conditionScore_pos
  by (auto simp: specConditionScore_def split: list.splits intro: less_imp_le)

lemma sum_spec_bounds:
  "0 \<le> sum_list (map (specConditionScore ss) cs) \<and>
   sum_list (map (specConditionScore ss) cs) \<le> real (length cs)"
proof (induction cs)
  case Nil
  then show ?case by simp
next
  case (Cons c cs)
  with specConditionScore_bounds[of ss c] show ?case by simp
qed

lemma calculateRuleMatch_bounds:
  assumes "calculateRuleMatch ss rule = Num m"
  shows "0 \<le> m \<and> m \<le> 1"
proof (cases "requiredUnsatisfied ss (conditions rule)")
  case True
  with assms show ?thesis by (simp add: calculateRuleMatch_closed)
next
  case False
  with assms have ne: "conditions rule \<noteq> []" and
     m: "m = sum_list (map (specConditionScore ss) (conditions rule))
              / real (length (conditions rule))"
    by (auto simp: calculateRuleMatch_closed split: if_splits)
  from ne have "0 < real (length (conditions rule))" by simp
  with sum_spec_bounds[of ss "conditions rule"] m show ?thesis
    by (simp add: divide_le_eq)
qed

lemma bestMatchLoop_None_iff:
  "bestMatchLoop ss b rules = None \<longleftrightarrow>
     b = None \<and> (\<forall>r\<in>set rules. \<forall>m. calculateRuleMatch ss r = Num m \<longrightarrow> m \<le> 0.5)"
  by (induction rules arbitrary: b)
     (auto simp: bestMatchStep_def split: jsnumber.splits option.splits)

lemma bestMatchLoop_Some:
  "bestMatchLoop ss b rules = Some (r, m) \<Longrightarrow>
     (b = Some (r, m) \<or> (r \<in> set rules \<and> calculateRuleMatch ss r = Num m \<and> m > 0.5)) \<and>
     (\<forall>r'\<in>set rules. \<forall>m'. calculateRuleMatch ss r' = Num m' \<longrightarrow> m' > 0.5 \<longrightarrow> m' \<le> m) \<and>
     (\<forall>r0 m0. b = Some (r0, m0) \<longrightarrow> m0 \<le> m)"
proof (induction rules arbitrary: b)
  case Nil
  then show ?case by simp
next
  case (Cons a rules)
  from Cons.prems have "bestMatchLoop ss (bestMatchStep ss b a) rules = Some (r, m)" by simp
  from Cons.IH[OF this] show ?case
    by (auto simp: bestMatchStep_def split: jsnumber.splits option.splits if_splits)
qed

subsection \<open>The severity fallback in closed form\<close>

lemma severityLoop_total:
  "fst (snd (severityLoop this ss mx t rs)) = t + sum_list (map confidence ss)"
  by (induction ss arbitrary: mx t rs) auto

lemma severityLoop_reasoning:
  "length (snd (snd (severityLoop this ss mx t rs))) = length rs + length ss"
  by (induction ss arbitrary: mx t rs) auto

lemma severityLoop_level_mem:
  "fst (severityLoop this ss mx t rs) \<in> insert mx (adjustedRisk this ` set ss)"
  by (induction ss arbitrary: mx t rs) (auto split: if_splits)

lemma severityLoop_level_ge:
  "getRiskLevelPriority mx \<le> getRiskLevelPriority (fst (severityLoop this ss mx t rs)) \<and>
   (\<forall>s\<in>set ss. getRiskLevelPriority (adjustedRisk this s)
        \<le> getRiskLevelPriority (fst (severityLoop this ss mx t rs)))"
proof (induction ss arbitrary: mx t rs)
  case Nil
  then show ?case by simp
next
  case (Cons s ss)
  let ?mx' = "if getRiskLevelPriority (adjustedRisk this s) > getRiskLevelPriority mx
              then adjustedRisk this s else mx"
  let ?rs' = "rs @ [symptom s @ '' ('' @ severityString (severity s) @ '' severity)'']"
  have step: "severityLoop this (s # ss) mx t rs = severityLoop this ss ?mx' (t + confidence s) ?rs'"
    by simp
  have "getRiskLevelPriority mx \<le> getRiskLevelPriority ?mx'"
    and "getRiskLevelPriority (adjustedRisk this s) \<le> getRiskLevelPriority ?mx'"
    by auto
  with Cons.IH[of ?mx' "t + confidence s" ?rs'] show ?case
    unfolding step by (auto intro: order_trans)
qed

lemma severityLoop_level_max:
  "getRiskLevelPriority (fst (severityLoop this ss mx t rs)) =
     Max (insert (getRiskLevelPriority mx) (getRiskLevelPriority ` adjustedRisk this ` set ss))"
proof (rule sym, rule Max_eqI)
  show "finite (insert (getRiskLevelPriority mx) (getRiskLevelPriority ` adjustedRisk this ` set ss))"
    by simp
next
  fix y
  assume "y \<in> insert (getRiskLevelPriority mx) (getRiskLevelPriority ` adjustedRisk this ` set ss)"
  then show "y \<le> getRiskLevelPriority (fst (severityLoop this ss mx t rs))"
    using severityLoop_level_ge[of mx this ss t rs] by auto
next
  show "getRiskLevelPriority (fst (severityLoop this ss mx t rs))
      \<in> insert (getRiskLevelPriority mx) (getRiskLevelPriority ` adjustedRisk this ` set ss)"
    using severityLoop_level_mem[of this ss mx t rs] by auto
qed

lemma sum_list_confidence_pos:
  "ss \<noteq> [] \<Longrightarrow> \<forall>s\<in>set ss. 0 < confidence s \<Longrightarrow> 0 < sum_list (map confidence ss)"
proof (induction ss)
  case Nil
  then show ?case by simp
next
  case (Cons s ss)
  show ?case
  proof (cases "ss = []")
    case True
    with Cons.prems show ?thesis by simp
  next
    case False
    with Cons have "0 < sum_list (map confidence ss)" by simp
    moreover from Cons.prems have "0 < confidence s" by simp
    ultimately show ?thesis by simp
  qed
qed

lemma initialRiskRules_wf:
  "\<forall>r\<in>set initialRiskRules. 0 < r_confidence r \<and> r_confidence r \<le> 1 \<and> r_reasoning r \<noteq> [] \<and> r_recommendations r \<noteq> []"
  by (simp add: initialRiskRules_def)

lemma recommendationsFor_ne: "recommendationsFor l \<noteq> []"
  by (cases l) auto

lemma assess_fields:
  "level (assessBySymptomSeverity this ss) = fst (severityLoop this ss MILD 0 [])"
  "a_confidence (assessBySymptomSeverity this ss) =
     min (sum_list (map confidence ss) / real (length ss)) 1"
  "length (reasoning (assessBySymptomSeverity this ss)) = length ss"
  "recommendations (assessBySymptomSeverity this ss) \<noteq> []"
  using severityLoop_total[of this ss MILD 0 "[]"] severityLoop_reasoning[of this ss MILD 0 "[]"]
  by (auto simp: assessBySymptomSeverity_def recommendationsFor_ne split: prod.splits)

lemma applyRiskRules_wf:
  assumes "applyRiskRules newRiskClassifier ss = Some a"
  shows "0 < a_confidence a \<and> a_confidence a \<le> 1 \<and> reasoning a \<noteq> [] \<and> recommendations a \<noteq> []"
proof -
  from assms obtain r m where bm: "bestMatchLoop ss None initialRiskRules = Some (r, m)"
    and a: "a = \<lparr>level = riskLevel r, a_confidence = r_confidence r * m,
                  reasoning = r_reasoning r, recommendations = r_recommendations r\<rparr>"
    by (auto simp: applyRiskRules_def newRiskClassifier_def split: option.splits)
  from bestMatchLoop_Some[OF bm] have
    r: "r \<in> set initialRiskRules" "calculateRuleMatch ss r = Num m" "m > 0.5" by auto
  from calculateRuleMatch_bounds[OF r(2)] have m1: "m \<le> 1" by simp
  from r(3) have m0: "0 < m" by simp
  from initialRiskRules_wf r(1) have wf: "0 < r_confidence r" "r_confidence r \<le> 1"
     "r_reasoning r \<noteq> []" "r_recommendations r \<noteq> []" by auto
  have "r_confidence r * m \<le> 1 * 1"
    using wf m0 m1 by (intro mult_mono) auto
  with wf m0 a show ?thesis by simp
qed

lemma checkEmergencyConditions_wf:
  assumes "checkEmergencyConditions this ss = Some a"
  shows "level a = EMERGENCY \<and> 0 < a_confidence a \<and> a_confidence a \<le> 1 \<and>
         reasoning a \<noteq> [] \<and> recommendations a \<noteq> []"
  using assms
  by (auto simp: checkEmergencyConditions_def split: option.splits if_splits)

subsection \<open>The claims about the classifier\<close>

text \<open>
  C1: when some symptom's name contains a configured emergency keyword, ignoring case,
  \<open>classifyRisk\<close> returns the level emergency whatever else is in the list, and
  \<open>enforceEmergencyProtocol\<close> then yields a confidence of at least 0.85.
\<close>

theorem emergency_keyword_dominance:
  assumes "s \<in> set symptoms" and "k \<in> set (emergencyKeywords this)"
    and "str_includes (toLowerCase (symptom s)) (toLowerCase k)"
  shows "level (classifyRisk this symptoms) = EMERGENCY \<and>
         a_confidence (enforceEmergencyProtocol (classifyRisk this symptoms)) \<ge> 0.85"
proof -
  from assms obtain kw where
    kw: "firstEmergencyKeyword (emergencyKeywords this) symptoms = Some kw"
    using firstEmergencyKeyword_hit by fastforce
  from assms(1) have ne: "length symptoms \<noteq> 0" by auto
  have lv: "level (classifyRisk this symptoms) = EMERGENCY"
    using kw ne by (simp add: classifyRisk_def checkEmergencyConditions_def)
  with enforce_floor show ?thesis by blast
qed

theorem emergency_keyword_dominance_witness:
  "mildChestPain \<in> set [mildHeadache, mildChestPain, moderateCough] \<and>
   ''chest pain'' \<in> set (emergencyKeywords newRiskClassifier) \<and>
   str_includes (toLowerCase (symptom mildChestPain)) (toLowerCase ''chest pain'') \<and>
   level (classifyRisk newRiskClassifier [mildHeadache, mildChestPain, moderateCough]) = EMERGENCY \<and>
   a_confidence (enforceEmergencyProtocol
      (classifyRisk newRiskClassifier [mildHeadache, mildChestPain, moderateCough])) \<ge> 0.85"
proof -
  have h1: "mildChestPain \<in> set [mildHeadache, mildChestPain, moderateCough]" by simp
  have h2: "''chest pain'' \<in> set (emergencyKeywords newRiskClassifier)"
    by (simp add: newRiskClassifier_def initialEmergencyKeywords_def SAFETY_emergencyKeywords_def)
  have h3: "str_includes (toLowerCase (symptom mildChestPain)) (toLowerCase ''chest pain'')"
    by code_simp
  from emergency_keyword_dominance[OF h1 h2 h3] h1 h2 h3 show ?thesis by blast
qed

text \<open>
  C3, as amended: for every symptom list, the empty one too, whose symptoms all have a
  positive confidence, the classifier as constructed returns one of the three levels, a
  confidence in the half-open interval from 0 to 1, and non-empty reasoning and
  recommendations.
\<close>

theorem classification_total:
  assumes "\<forall>s\<in>set symptoms. 0 < confidence s"
  shows "level (classifyRisk newRiskClassifier symptoms) \<in> {MILD, MODERATE, EMERGENCY} \<and>
         0 < a_confidence (classifyRisk newRiskClassifier symptoms) \<and>
         a_confidence (classifyRisk newRiskClassifier symptoms) \<le> 1 \<and>
         reasoning (classifyRisk newRiskClassifier symptoms) \<noteq> [] \<and>
         recommendations (classifyRisk newRiskClassifier symptoms) \<noteq> []"
proof -
  let ?r = "classifyRisk newRiskClassifier symptoms"
  have lv: "level ?r \<in> {MILD, MODERATE, EMERGENCY}" by (cases "level ?r") auto
  have "0 < a_confidence ?r \<and> a_confidence ?r \<le> 1 \<and> reasoning ?r \<noteq> [] \<and> recommendations ?r \<noteq> []"
  proof (cases "symptoms = []")
    case True
    then show ?thesis by (simp add: classifyRisk_def)
  next
    case ne: False
    show ?thesis
    proof (cases "checkEmergencyConditions newRiskClassifier symptoms")
      case (Some a)
      then have "?r = a" using ne by (simp add: classifyRisk_def)
      with checkEmergencyConditions_wf[OF Some] show ?thesis by simp
    next
      case noem: None
      show ?thesis
      proof (cases "applyRiskRules newRiskClassifier symptoms")
        case (Some a)
        then have "?r = a" using ne noem by (simp add: classifyRisk_def)
        with applyRiskRules_wf[OF Some] show ?thesis by simp
      next
        case None
        then have r: "?r = assessBySymptomSeverity newRiskClassifier symptoms"
          using ne noem by (simp add: classifyRisk_def)
        from ne assms have "0 < sum_list (map confidence symptoms)"
          by (rule sum_list_confidence_pos)
        moreover from ne have "0 < real (length symptoms)" by simp
        ultimately have "0 < sum_list (map confidence symptoms) / real (length symptoms)"
          by (rule divide_pos_pos)
        with ne show ?thesis unfolding r
          using assess_fields[of newRiskClassifier symptoms] by (auto simp del: length_0_conv)
      qed
    qed
  qed
  with lv show ?thesis by blast
qed

theorem classification_total_witness:
  "0 < confidence mildHeadache \<and> 0 < confidence moderateCough \<and>
   0 < a_confidence (classifyRisk newRiskClassifier [mildHeadache, moderateCough]) \<and>
   a_confidence (classifyRisk newRiskClassifier [mildHeadache, moderateCough]) \<le> 1 \<and>
   reasoning (classifyRisk newRiskClassifier [mildHeadache, moderateCough]) \<noteq> [] \<and>
   recommendations (classifyRisk newRiskClassifier [mildHeadache, moderateCough]) \<noteq> []"
proof -
  have h: "\<forall>s\<in>set [mildHeadache, moderateCough]. 0 < confidence s"
    by (simp add: mildHeadache_def moderateCough_def)
  from classification_total[OF h] h show ?thesis by simp
qed

theorem classification_total_counterexample:
  "\<not> 0 < a_confidence (classifyRisk newRiskClassifier [unsureCough])"
  by code_simp

text \<open>
  C4, as amended: on a non-empty list where neither the emergency override nor a rule
  fires, every symptom gets its base tier from the table (mild when absent); the tier goes
  up one step, saturating at emergency, when the severity is severe, a mild base tier
  becomes moderate when the severity is moderate, and the tier never goes down; the level
  is the highest tier of the list and the confidence is the mean of the symptoms'
  confidences, capped at 1.
\<close>

theorem severity_fallback:
  assumes "symptoms \<noteq> []"
    and "checkEmergencyConditions this symptoms = None"
    and "applyRiskRules this symptoms = None"
  shows "getRiskLevelPriority (level (classifyRisk this symptoms)) =
           Max (getRiskLevelPriority ` adjustedRisk this ` set symptoms) \<and>
         level (classifyRisk this symptoms) \<in> adjustedRisk this ` set symptoms \<and>
         a_confidence (classifyRisk this symptoms) =
           min (sum_list (map confidence symptoms) / real (length symptoms)) 1 \<and>
         (\<forall>s. baseRisk this s =
               (case symptomSeverityMap this (symptom s) of Some l \<Rightarrow> l | None \<Rightarrow> MILD)) \<and>
         (\<forall>s. getRiskLevelPriority (baseRisk this s)
               \<le> getRiskLevelPriority (adjustedRisk this s)) \<and>
         (\<forall>s. severity s = SEVERE \<longrightarrow>
               getRiskLevelPriority (adjustedRisk this s) =
                 min 3 (getRiskLevelPriority (baseRisk this s) + 1)) \<and>
         (\<forall>s. severity s = SEV_MODERATE \<longrightarrow>
               adjustedRisk this s =
                 (if baseRisk this s = MILD then MODERATE else baseRisk this s)) \<and>
         (\<forall>s. severity s = SEV_MILD \<longrightarrow> adjustedRisk this s = baseRisk this s)"
proof -
  let ?S = "getRiskLevelPriority ` adjustedRisk this ` set symptoms"
  have r: "classifyRisk this symptoms = assessBySymptomSeverity this symptoms"
    using assms by (simp add: classifyRisk_def)
  have one: "\<forall>y\<in>?S. 1 \<le> y"
  proof
    fix y assume "y \<in> ?S"
    then obtain l where "y = getRiskLevelPriority l" by auto
    then show "1 \<le> y" by (cases l) auto
  qed
  from assms(1) have ne: "?S \<noteq> {}" and fin: "finite ?S" by auto
  then have "Max ?S \<in> ?S" by (rule_tac Max_in)
  with one have "1 \<le> Max ?S" by blast
  with ne fin have mx: "Max (insert (getRiskLevelPriority MILD) ?S) = Max ?S"
    by (simp add: max_def)
  have c1: "getRiskLevelPriority (level (classifyRisk this symptoms)) = Max ?S"
    unfolding r assess_fields(1) using severityLoop_level_max[of this symptoms MILD 0 "[]"] mx
    by simp
  have "level (classifyRisk this symptoms) \<in> insert MILD (adjustedRisk this ` set symptoms)"
    unfolding r assess_fields(1) by (rule severityLoop_level_mem)
  moreover have "level (classifyRisk this symptoms) = MILD \<Longrightarrow>
      level (classifyRisk this symptoms) \<in> adjustedRisk this ` set symptoms"
  proof -
    assume m: "level (classifyRisk this symptoms) = MILD"
    from \<open>Max ?S \<in> ?S\<close> obtain s where s: "s \<in> set symptoms"
      "getRiskLevelPriority (adjustedRisk this s) = Max ?S" by auto
    with c1 m have "getRiskLevelPriority (adjustedRisk this s) = 1" by simp
    then have "adjustedRisk this s = MILD" by (cases "adjustedRisk this s") auto
    with s m show ?thesis by force
  qed
  ultimately have c2: "level (classifyRisk this symptoms) \<in> adjustedRisk this ` set symptoms"
    by blast
  have c3: "a_confidence (classifyRisk this symptoms) =
           min (sum_list (map confidence symptoms) / real (length symptoms)) 1"
    unfolding r by (rule assess_fields(2))
  have c4: "\<forall>s. baseRisk this s =
               (case symptomSeverityMap this (symptom s) of Some l \<Rightarrow> l | None \<Rightarrow> MILD)"
    by (simp add: baseRisk_def)
  have c5: "getRiskLevelPriority (baseRisk this s) \<le> getRiskLevelPriority (adjustedRisk this s)" for s
    by (cases "baseRisk this s") (auto simp: adjustedRisk_def)
  have c6: "severity s = SEVERE \<longrightarrow> getRiskLevelPriority (adjustedRisk this s) =
                 min 3 (getRiskLevelPriority (baseRisk this s) + 1)" for s
    by (cases "baseRisk this s") (auto simp: adjustedRisk_def)
  have c7: "severity s = SEV_MODERATE \<longrightarrow> adjustedRisk this s =
                 (if baseRisk this s = MILD then MODERATE else baseRisk this s)" for s
    by (auto simp: adjustedRisk_def)
  have c8: "severity s = SEV_MILD \<longrightarrow> adjustedRisk this s = baseRisk this s" for s
    by (auto simp: adjustedRisk_def)
  from c1 c2 c3 c4 c5 c6 c7 c8 show ?thesis by blast
qed

theorem severity_fallback_witness:
  "[moderateCough, severeNausea] \<noteq> [] \<and>
   checkEmergencyConditions newRiskClassifier [moderateCough, severeNausea] = None \<and>
   applyRiskRules newRiskClassifier [moderateCough, severeNausea] = None \<and>
   level (classifyRisk newRiskClassifier [moderateCough, severeNausea]) = MODERATE \<and>
   a_confidence (classifyRisk newRiskClassifier [moderateCough, severeNausea]) = 0.7"
proof -
  have h1: "[moderateCough, severeNausea] \<noteq> []" by simp
  have h2: "checkEmergencyConditions newRiskClassifier [moderateCough, severeNausea] = None"
    by code_simp
  have h3: "applyRiskRules newRiskClassifier [moderateCough, severeNausea] = None"
    by code_simp
  have a: "adjustedRisk newRiskClassifier moderateCough = MODERATE"
    "adjustedRisk newRiskClassifier severeNausea = MODERATE" by code_simp+
  from severity_fallback[OF h1 h2 h3] have
    "level (classifyRisk newRiskClassifier [moderateCough, severeNausea])
        \<in> adjustedRisk newRiskClassifier ` set [moderateCough, severeNausea]"
    "a_confidence (classifyRisk newRiskClassifier [moderateCough, severeNausea]) =
       min (sum_list (map confidence [moderateCough, severeNausea]) / real (length [moderateCough, severeNausea])) 1"
    by blast+
  with a h1 h2 h3 show ?thesis by (simp add: moderateCough_def severeNausea_def)
qed

theorem severity_fallback_counterexample:
  "checkEmergencyConditions newRiskClassifier [moderateCough] = None \<and>
   applyRiskRules newRiskClassifier [moderateCough] = None \<and>
   specAdjustedRisk newRiskClassifier moderateCough = MILD \<and>
   level (classifyRisk newRiskClassifier [moderateCough]) = MODERATE"
  by code_simp

text \<open>
  C5: the match score of a rule is the average, over all its conditions, of the capped
  condition scores, and 0 when a required condition is matched by no symptom (a rule
  without conditions yields NaN, the average of nothing); the rule stage returns nothing
  when no score exceeds 0.5, and otherwise the level of a rule whose score exceeds 0.5 and
  is the highest, with the rule's confidence times that score.
\<close>

theorem rule_matching:
  "calculateRuleMatch symptoms rule =
     (if conditions rule = [] then NaN else Num (specRuleScore symptoms rule)) \<and>
   (applyRiskRules this symptoms = None \<longleftrightarrow>
      (\<forall>r\<in>set (riskRules this). \<forall>m. calculateRuleMatch symptoms r = Num m \<longrightarrow> m \<le> 0.5)) \<and>
   (\<forall>a. applyRiskRules this symptoms = Some a \<longrightarrow>
      (\<exists>r\<in>set (riskRules this). \<exists>m.
          calculateRuleMatch symptoms r = Num m \<and> m > 0.5 \<and>
          (\<forall>r'\<in>set (riskRules this). \<forall>m'. calculateRuleMatch symptoms r' = Num m' \<longrightarrow> m' \<le> m) \<and>
          level a = riskLevel r \<and> a_confidence a = r_confidence r * m))"
proof (intro conjI allI impI)
  show "calculateRuleMatch symptoms rule =
     (if conditions rule = [] then NaN else Num (specRuleScore symptoms rule))"
    by (auto simp: calculateRuleMatch_closed specRuleScore_def requiredUnsatisfied_def)
next
  show "applyRiskRules this symptoms = None \<longleftrightarrow>
      (\<forall>r\<in>set (riskRules this). \<forall>m. calculateRuleMatch symptoms r = Num m \<longrightarrow> m \<le> 0.5)"
    using bestMatchLoop_None_iff[of symptoms None "riskRules this"]
    by (auto simp: applyRiskRules_def split: option.splits)
next
  fix a
  assume "applyRiskRules this symptoms = Some a"
  then obtain r m where bm: "bestMatchLoop symptoms None (riskRules this) = Some (r, m)"
    and a: "a = \<lparr>level = riskLevel r, a_confidence = r_confidence r * m,
                  reasoning = r_reasoning r, recommendations = r_recommendations r\<rparr>"
    by (auto simp: applyRiskRules_def split: option.splits)
  from bestMatchLoop_Some[OF bm] have
    r: "r \<in> set (riskRules this)" "calculateRuleMatch symptoms r = Num m" "m > 0.5" and
    mx: "\<forall>r'\<in>set (riskRules this). \<forall>m'. calculateRuleMatch symptoms r' = Num m' \<longrightarrow> m' > 0.5 \<longrightarrow> m' \<le> m"
    by auto
  have "\<forall>r'\<in>set (riskRules this). \<forall>m'. calculateRuleMatch symptoms r' = Num m' \<longrightarrow> m' \<le> m"
  proof (intro ballI allI impI)
    fix r' m'
    assume "r' \<in> set (riskRules this)" "calculateRuleMatch symptoms r' = Num m'"
    with mx r(3) show "m' \<le> m" by (cases "m' > 0.5") auto
  qed
  with r a show "\<exists>r\<in>set (riskRules this). \<exists>m.
          calculateRuleMatch symptoms r = Num m \<and> m > 0.5 \<and>
          (\<forall>r'\<in>set (riskRules this). \<forall>m'. calculateRuleMatch symptoms r' = Num m' \<longrightarrow> m' \<le> m) \<and>
          level a = riskLevel r \<and> a_confidence a = r_confidence r * m"
    by auto
qed

theorem rule_matching_witness:
  "calculateRuleMatch [mildHeadache] (initialRiskRules ! 6) = Num (4 / 5) \<and>
   applyRiskRules newRiskClassifier [mildHeadache] \<noteq> None"
proof -
  have s: "specRuleScore [mildHeadache] (initialRiskRules ! 6) = 4 / 5"
    by code_simp
  have c: "conditions (initialRiskRules ! 6) \<noteq> []"
    by code_simp
  have m: "initialRiskRules ! 6 \<in> set (riskRules newRiskClassifier)"
    by (simp add: newRiskClassifier_def initialRiskRules_def)
  from rule_matching[of "[mildHeadache]" "initialRiskRules ! 6" newRiskClassifier] s c
  have sc: "calculateRuleMatch [mildHeadache] (initialRiskRules ! 6) = Num (4 / 5)"
    by simp
  have "applyRiskRules newRiskClassifier [mildHeadache] \<noteq> None"
  proof
    assume "applyRiskRules newRiskClassifier [mildHeadache] = None"
    with rule_matching[of "[mildHeadache]" "initialRiskRules ! 6" newRiskClassifier] m sc
    have "(4 / 5 :: real) \<le> 0.5" by blast
    then show False by simp
  qed
  with sc show ?thesis by blast
qed

section \<open>Properties of the session controller\<close>

lemma deleteSessionData_live:
  assumes "sessions st sid = Some r"
  shows "fst (deleteSessionData sid st) = Inr () \<and>
         sessions (snd (deleteSessionData sid st)) = (sessions st)(sid := None) \<and>
         heap (snd (deleteSessionData sid st)) =
           (heap st)(r := (heap st r)\<lparr>session_symptoms := [], conversationHistory := [],
                                      riskAssessment := None\<rparr>)"
  using assms
  by (auto simp: deleteSessionData_def clearTimeout_def Let_def split: option.splits)

text \<open>
  C8: ending a live session returns normally; afterwards the session object has an empty
  symptom list and an empty conversation history, and its identifier is no longer in the
  session store: \<open>getSessionById\<close> returns nothing for it.
\<close>

theorem session_erasure:
  assumes "sessions st sid = Some r"
  shows "fst (endSession now1 now2 sid st) = Inr () \<and>
         session_symptoms (heap (snd (endSession now1 now2 sid st)) r) = [] \<and>
         conversationHistory (heap (snd (endSession now1 now2 sid st)) r) = [] \<and>
         getSessionById sid (snd (endSession now1 now2 sid st)) = None \<and>
         sid \<notin> dom (sessions (snd (endSession now1 now2 sid st)))"
proof -
  let ?session2 = "(heap st r)\<lparr>endTime := Some now1, status := COMPLETED,
       conversationHistory := conversationHistory (heap st r) @
          [\<lparr>timestamp = now2, turn_type = system_response,
            content = ''Session ended'', processedSymptoms = None\<rparr>]\<rparr>"
  let ?st1 = "st\<lparr>heap := (heap st)(r := ?session2)\<rparr>"
  have e: "endSession now1 now2 sid st = deleteSessionData sid ?st1"
    using assms by (simp add: endSession_def Let_def)
  have live: "sessions ?st1 sid = Some r" using assms by simp
  from deleteSessionData_live[OF live] show ?thesis
    unfolding e by (simp add: getSessionById_def)
qed

theorem session_erasure_witness:
  "sessions (snd (startSession ''s1'' 5 newSessionController)) ''s1'' = Some 0 \<and>
   conversationHistory (heap (snd (startSession ''s1'' 5 newSessionController)) 0) \<noteq> [] \<and>
   session_symptoms (heap (snd (endSession 8 9 ''s1''
       (snd (startSession ''s1'' 5 newSessionController)))) 0) = [] \<and>
   conversationHistory (heap (snd (endSession 8 9 ''s1''
       (snd (startSession ''s1'' 5 newSessionController)))) 0) = [] \<and>
   getSessionById ''s1'' (snd (endSession 8 9 ''s1''
       (snd (startSession ''s1'' 5 newSessionController)))) = None"
proof -
  have h: "sessions (snd (startSession ''s1'' 5 newSessionController)) ''s1'' = Some 0"
    by (simp add: startSession_def newSessionController_def setupSessionTimeout_def Let_def)
  have n: "conversationHistory (heap (snd (startSession ''s1'' 5 newSessionController)) 0) \<noteq> []"
    by (simp add: startSession_def newSessionController_def setupSessionTimeout_def Let_def)
  from session_erasure[OF h, of 8 9] h n show ?thesis by simp
qed

text \<open>
  C9: on an identifier with no session in the store, \<open>deleteSessionData\<close> and
  \<open>endSession\<close> return normally and leave the whole state as it was; in particular
  a second deletion, or a second end, of the same session changes nothing.
\<close>

theorem delete_absent_noop:
  "(sessions st sid = None \<longrightarrow>
      deleteSessionData sid st = (Inr (), st) \<and> endSession now1 now2 sid st = (Inr (), st)) \<and>
   deleteSessionData sid (snd (deleteSessionData sid st)) =
      (Inr (), snd (deleteSessionData sid st)) \<and>
   endSession now3 now4 sid (snd (endSession now1 now2 sid st)) =
      (Inr (), snd (endSession now1 now2 sid st))"
proof -
  have absent: "deleteSessionData sid s = (Inr (), s) \<and> endSession t1 t2 sid s = (Inr (), s)"
    if "sessions s sid = None" for s t1 t2
    using that by (simp add: deleteSessionData_def endSession_def)
  have d: "sessions (snd (deleteSessionData sid s)) sid = None" for s
    by (cases "sessions s sid")
       (auto simp: deleteSessionData_def clearTimeout_def Let_def split: option.splits)
  have e: "sessions (snd (endSession now1 now2 sid st)) sid = None"
    by (cases "sessions st sid") (auto simp: endSession_def Let_def d)
  from absent d e show ?thesis by blast
qed

theorem delete_absent_noop_witness:
  "sessions newSessionController ''gone'' = None \<and>
   deleteSessionData ''gone'' newSessionController = (Inr (), newSessionController) \<and>
   endSession 1 2 ''gone'' newSessionController = (Inr (), newSessionController)"
proof -
  have h: "sessions newSessionController ''gone'' = None"
    by (simp add: newSessionController_def)
  from delete_absent_noop[of newSessionController "''gone''" 1 2] h show ?thesis by blast
qed

text \<open>
  C10: on an identifier with no session in the store, \<open>getSessionContext\<close>,
  \<open>updateSessionContext\<close>, \<open>addSymptoms\<close> and \<open>setRiskAssessment\<close> each throw
  the error "Session not found" and leave the whole state as it was.
\<close>

theorem absent_session_throws:
  assumes "sessions st sid = None"
  shows "getSessionContext now sid st = (Inl (Error (''Session not found: '' @ sid)), st) \<and>
         updateSessionContext now sid context st =
            (Inl (Error (''Session not found: '' @ sid)), st) \<and>
         addSymptoms now sid syms st = (Inl (Error (''Session not found: '' @ sid)), st) \<and>
         setRiskAssessment now sid assessment st =
            (Inl (Error (''Session not found: '' @ sid)), st)"
  using assms
  by (simp add: getSessionContext_def updateSessionContext_def addSymptoms_def
        setRiskAssessment_def notFound_def)

theorem absent_session_throws_witness:
  "sessions newSessionController ''gone'' = None \<and>
   getSessionContext 7 ''gone'' newSessionController =
      (Inl (Error ''Session not found: gone''), newSessionController) \<and>
   addSymptoms 7 ''gone'' [mildHeadache] newSessionController =
      (Inl (Error ''Session not found: gone''), newSessionController) \<and>
   setRiskAssessment 7 ''gone'' (classifyRisk newRiskClassifier []) newSessionController =
      (Inl (Error ''Session not found: gone''), newSessionController) \<and>
   updateSessionContext 7 ''gone''
      \<lparr>p_symptoms = Some [mildHeadache], p_questionsAsked = None, p_riskLevel = None,
        p_sessionDuration = None\<rparr> newSessionController =
      (Inl (Error ''Session not found: gone''), newSessionController)"
proof -
  have h: "sessions newSessionController ''gone'' = None"
    by (simp add: newSessionController_def)
  from absent_session_throws[OF h] h show ?thesis by simp
qed

section \<open>Properties of the language analysis\<close>

text \<open>
  C6: \<open>detectIntent\<close> returns unknown as soon as one of the "I don't know" patterns
  matches the normalised text, before any other check; otherwise the pattern groups are
  tried in the order describe symptoms, end session, request help, ask clarification; and
  when nothing matches the result is describe symptoms if the text contains a symptom
  keyword and request help if not.
\<close>

theorem intent_priority:
  "detectIntent text =
     (if anyPatternMatches unknownPatterns (trim (toLowerCase text)) then UNKNOWN
      else if anyPatternMatches (patternsOf DESCRIBE_SYMPTOMS) (trim (toLowerCase text))
        then DESCRIBE_SYMPTOMS
      else if anyPatternMatches (patternsOf END_SESSION) (trim (toLowerCase text))
        then END_SESSION
      else if anyPatternMatches (patternsOf REQUEST_HELP) (trim (toLowerCase text))
        then REQUEST_HELP
      else if anyPatternMatches (patternsOf ASK_CLARIFICATION) (trim (toLowerCase text))
        then ASK_CLARIFICATION
      else if containsSymptomKeywords (trim (toLowerCase text)) then DESCRIBE_SYMPTOMS
      else REQUEST_HELP)"
proof -
  have loop: "intentLoop intentPatterns t =
     (if anyPatternMatches (patternsOf DESCRIBE_SYMPTOMS) t then Some DESCRIBE_SYMPTOMS
      else if anyPatternMatches (patternsOf END_SESSION) t then Some END_SESSION
      else if anyPatternMatches (patternsOf REQUEST_HELP) t then Some REQUEST_HELP
      else if anyPatternMatches (patternsOf ASK_CLARIFICATION) t then Some ASK_CLARIFICATION
      else None)" for t
    by (simp add: intentPatterns_def patternsOf_def)
  show ?thesis
    by (simp add: detectIntent_def Let_def loop)
qed

theorem intent_priority_witness:
  "anyPatternMatches (patternsOf DESCRIBE_SYMPTOMS)
      (trim (toLowerCase ''I have a headache but I am not sure'')) \<and>
   detectIntent ''I have a headache but I am not sure'' = UNKNOWN \<and>
   detectIntent ''fever'' = DESCRIBE_SYMPTOMS"
proof -
  have a: "anyPatternMatches (patternsOf DESCRIBE_SYMPTOMS)
      (trim (toLowerCase ''I have a headache but I am not sure''))"
    by code_simp
  have b: "anyPatternMatches unknownPatterns
      (trim (toLowerCase ''I have a headache but I am not sure''))"
    by code_simp
  have d: "\<not> anyPatternMatches unknownPatterns (trim (toLowerCase ''fever''))"
    "\<not> anyPatternMatches (patternsOf DESCRIBE_SYMPTOMS) (trim (toLowerCase ''fever''))"
    "\<not> anyPatternMatches (patternsOf END_SESSION) (trim (toLowerCase ''fever''))"
    "\<not> anyPatternMatches (patternsOf REQUEST_HELP) (trim (toLowerCase ''fever''))"
    "\<not> anyPatternMatches (patternsOf ASK_CLARIFICATION) (trim (toLowerCase ''fever''))"
    "containsSymptomKeywords (trim (toLowerCase ''fever''))"
    by code_simp+
  show ?thesis
    using a
      intent_priority[of "''I have a headache but I am not sure''"] b
      intent_priority[of "''fever''"] d
    by simp
qed

text \<open>
  C7: take two inputs whose symptom lists carry the same confidences and whose texts agree
  on being shorter than three words and on containing an uncertainty marker. When every
  one of the three cues (body part, severity, duration) detected in the first text is
  detected in the second too, the ambiguity score of the second input is not greater than
  that of the first.
\<close>

theorem ambiguity_monotone:
  assumes "map confidence syms2 = map confidence syms1"
    and "(splitLength (trim text2) < 3) = (splitLength (trim text1) < 3)"
    and "list_ex (\<lambda>marker. str_includes (toLowerCase text2) marker) uncertaintyMarkers =
         list_ex (\<lambda>marker. str_includes (toLowerCase text1) marker) uncertaintyMarkers"
    and "hasBodyPart (analyzeTextComplexity text1) \<Longrightarrow> hasBodyPart (analyzeTextComplexity text2)"
    and "hasSeverity (analyzeTextComplexity text1) \<Longrightarrow> hasSeverity (analyzeTextComplexity text2)"
    and "hasDuration (analyzeTextComplexity text1) \<Longrightarrow> hasDuration (analyzeTextComplexity text2)"
  shows "getAmbiguityScore text2 syms2 \<le> getAmbiguityScore text1 syms1"
proof -
  define b :: "bool \<Rightarrow> real" where "b x = (if x then 0 else 1)" for x
  define base where "base ss =
     (if length ss = 0 then 0.8 else 0) +
     (if ss \<noteq> [] \<and> sum_list (map confidence ss) / real (length ss) < 0.5
      then 0.4 else (0::real))" for ss :: "SymptomEntity list"
  define tail where "tail t =
     (if splitLength (trim t) < 3 then 0.3 else 0) +
     (if list_ex (\<lambda>marker. str_includes (toLowerCase t) marker) uncertaintyMarkers
      then 0.2 else (0::real))" for t
  have score: "getAmbiguityScore t ss =
      min (base ss + 0.2 * b (hasBodyPart (analyzeTextComplexity t))
                + 0.2 * b (hasSeverity (analyzeTextComplexity t))
                + 0.1 * b (hasDuration (analyzeTextComplexity t)) + tail t) 1" for t ss
    by (simp add: getAmbiguityScore_def Let_def base_def tail_def b_def)
  from assms(1) have "length (map confidence syms2) = length (map confidence syms1)"
    by simp
  then have len: "length syms2 = length syms1" by simp
  then have "(syms2 = []) = (syms1 = [])" by auto
  with assms(1) len have bs: "base syms2 = base syms1" by (simp add: base_def)
  have t: "tail text2 = tail text1" using assms(2,3) by (simp add: tail_def)
  have mono: "b y \<le> b x" if "x \<Longrightarrow> y" for x y using that by (auto simp: b_def)
  have "0.2 * b (hasBodyPart (analyzeTextComplexity text2))
          \<le> 0.2 * b (hasBodyPart (analyzeTextComplexity text1))"
       "0.2 * b (hasSeverity (analyzeTextComplexity text2))
          \<le> 0.2 * b (hasSeverity (analyzeTextComplexity text1))"
       "0.1 * b (hasDuration (analyzeTextComplexity text2))
          \<le> 0.1 * b (hasDuration (analyzeTextComplexity text1))"
    using mono[OF assms(4)] mono[OF assms(5)] mono[OF assms(6)] by simp_all
  with t bs show ?thesis unfolding score by (intro min.mono) auto
qed

theorem ambiguity_monotone_witness:
  "hasSeverity (analyzeTextComplexity ''i have a severe cough'') \<and>
   \<not> hasSeverity (analyzeTextComplexity ''i have a cough'') \<and>
   getAmbiguityScore ''i have a severe cough'' [moderateCough] = 0.3 \<and>
   getAmbiguityScore ''i have a cough'' [moderateCough] = 0.5 \<and>
   getAmbiguityScore ''i have a severe cough'' [moderateCough]
     \<le> getAmbiguityScore ''i have a cough'' [moderateCough]"
proof -
  have h0: "map confidence [moderateCough] = map confidence [moderateCough]" by simp
  have h1: "(splitLength (trim ''i have a severe cough'') < 3) =
            (splitLength (trim ''i have a cough'') < 3)"
    by code_simp
  have h2: "list_ex (\<lambda>marker. str_includes (toLowerCase ''i have a severe cough'') marker)
              uncertaintyMarkers =
            list_ex (\<lambda>marker. str_includes (toLowerCase ''i have a cough'') marker)
              uncertaintyMarkers"
    by code_simp
  have a1: "analyzeTextComplexity ''i have a cough'' =
      \<lparr>hasSymptoms = True, hasBodyPart = False, hasSeverity = False,
       hasDuration = False, isAmbiguous = True\<rparr>"
    by code_simp
  have a2: "analyzeTextComplexity ''i have a severe cough'' =
      \<lparr>hasSymptoms = True, hasBodyPart = False, hasSeverity = True,
       hasDuration = False, isAmbiguous = False\<rparr>"
    by code_simp
  have v1: "getAmbiguityScore ''i have a severe cough'' [moderateCough] = 0.3" by code_simp
  have v2: "getAmbiguityScore ''i have a cough'' [moderateCough] = 0.5" by code_simp
  have "getAmbiguityScore ''i have a severe cough'' [moderateCough]
     \<le> getAmbiguityScore ''i have a cough'' [moderateCough]"
    by (rule ambiguity_monotone[OF h0 h1 h2]) (simp_all add: a1 a2)
  with a1 a2 v1 v2 show ?thesis by simp
qed

section \<open>Properties of the safety guardian\<close>

lemma str_includes_iff: "str_includes s t \<longleftrightarrow> (\<exists>ps ss. s = ps @ t @ ss)"
proof (induction s)
  case Nil
  then show ?case by auto
next
  case (Cons c cs)
  show ?case
  proof
    assume "str_includes (c # cs) t"
    then consider "prefix t (c # cs)" | "str_includes cs t" by auto
    then show "\<exists>ps ss. c # cs = ps @ t @ ss"
    proof cases
      case 1
      then obtain ss where "c # cs = t @ ss" by (auto simp: prefix_def)
      then have "c # cs = [] @ t @ ss" by simp
      then show ?thesis by blast
    next
      case 2
      with Cons.IH obtain ps ss where "cs = ps @ t @ ss" by blast
      then have "c # cs = (c # ps) @ t @ ss" by simp
      then show ?thesis by blast
    qed
  next
    assume "\<exists>ps ss. c # cs = ps @ t @ ss"
    then obtain ps ss where e: "c # cs = ps @ t @ ss" by blast
    show "str_includes (c # cs) t"
    proof (cases ps)
      case Nil
      with e have "prefix t (c # cs)" by (simp add: prefix_def)
      then show ?thesis by simp
    next
      case (Cons p ps')
      with e have "cs = ps' @ t @ ss" by simp
      with Cons.IH have "str_includes cs t" by blast
      then show ?thesis by simp
    qed
  qed
qed

lemma str_includes_map: "str_includes s t \<Longrightarrow> str_includes (map f s) (map f t)"
  unfolding str_includes_iff by (metis map_append)

lemma str_includes_append_take: "str_includes (a @ b) (take n b)"
  unfolding str_includes_iff by (metis append_take_drop_id)

lemma valid_no_violation:
  assumes "isValid (validateResponse this d)"
  shows "(\<forall>t\<in>set (prohibitedTerms this). \<not> str_includes (toLowerCase d) (toLowerCase t)) \<and>
         (hasDisclaimer d \<or> length d \<le> 50)"
  using assms
  by (auto simp: validateResponse_def Let_def filter_empty_conv split: if_splits)

lemma randomDisclaimer_mem:
  assumes "0 \<le> rnd" "rnd < 1"
  shows "randomDisclaimer rnd \<in> set SAFETY_requiredDisclaimers"
proof -
  have len: "length SAFETY_requiredDisclaimers = 3" by (simp add: SAFETY_requiredDisclaimers_def)
  from assms have "0 \<le> rnd * 3" "rnd * 3 < 3" by simp_all
  then have f: "0 \<le> \<lfloor>rnd * 3\<rfloor>" "\<lfloor>rnd * 3\<rfloor> < 3" by (simp_all add: floor_less_iff)
  then have i: "nat \<lfloor>rnd * 3\<rfloor> < length SAFETY_requiredDisclaimers"
    unfolding len by linarith
  from f have r: "randomDisclaimer rnd = SAFETY_requiredDisclaimers ! nat \<lfloor>rnd * 3\<rfloor>"
    by (simp add: randomDisclaimer_def len Let_def)
  from nth_mem[OF i] r show ?thesis by simp
qed

lemma hasDisclaimer_appended:
  assumes "sel \<in> set SAFETY_requiredDisclaimers"
  shows "hasDisclaimer (x @ '' '' @ sel)"
proof -
  have "toLowerCase (x @ '' '' @ sel) = (toLowerCase x @ toLowerCase '' '') @ toLowerCase sel"
    by (simp add: toLowerCase_def)
  then have "str_includes (toLowerCase (x @ '' '' @ sel)) (take 20 (toLowerCase sel))"
    by (simp only: str_includes_append_take)
  with assms show ?thesis
    unfolding hasDisclaimer_def list_ex_iff by blast
qed

lemma valid_has_disclaimer:
  assumes "0 \<le> rnd" "rnd < 1"
    and "isValid (validateResponse this (addMedicalDisclaimer rnd x))"
  shows "hasDisclaimer (addMedicalDisclaimer rnd x)"
proof (cases "hasDisclaimer x")
  case True
  then show ?thesis by (simp add: addMedicalDisclaimer_def)
next
  case False
  let ?d = "addMedicalDisclaimer rnd x"
  have le: "length emergencyDisclaimer > 50" "length generalDisclaimer > 50"
    by (simp_all add: emergencyDisclaimer_def generalDisclaimer_def)
  have d: "?d = x @ '' '' @
      (if str_includes (toLowerCase x) ''emergency'' \<or> str_includes (toLowerCase x) ''urgent''
       then emergencyDisclaimer
       else if str_includes (toLowerCase x) ''recommend'' \<or>
               str_includes (toLowerCase x) ''suggest''
       then generalDisclaimer
       else randomDisclaimer rnd)"
    using False by (simp add: addMedicalDisclaimer_def Let_def)
  then consider "?d = x @ '' '' @ emergencyDisclaimer" | "?d = x @ '' '' @ generalDisclaimer"
    | "?d = x @ '' '' @ randomDisclaimer rnd"
    by presburger
  then show ?thesis
  proof cases
    case 1
    with le have "length ?d > 50" by simp
    with valid_no_violation[OF assms(3)] show ?thesis by auto
  next
    case 2
    with le have "length ?d > 50" by simp
    with valid_no_violation[OF assms(3)] show ?thesis by auto
  next
    case 3
    with hasDisclaimer_appended[OF randomDisclaimer_mem[OF assms(1,2)]] show ?thesis by simp
  qed
qed

lemma fallback_emergency:
  "addMedicalDisclaimer rnd (fallbackTemplate EMERGENCY) =
     fallbackTemplate EMERGENCY @ '' '' @ emergencyDisclaimer"
proof -
  have "\<not> hasDisclaimer (fallbackTemplate EMERGENCY)" by code_simp
  moreover have "str_includes (toLowerCase (fallbackTemplate EMERGENCY)) ''emergency''" by code_simp
  ultimately show ?thesis by (simp add: addMedicalDisclaimer_def Let_def)
qed

lemma fallback_moderate:
  "addMedicalDisclaimer rnd (fallbackTemplate MODERATE) =
     fallbackTemplate MODERATE @ '' '' @ generalDisclaimer"
proof -
  have "\<not> hasDisclaimer (fallbackTemplate MODERATE)" by code_simp
  moreover have "\<not> str_includes (toLowerCase (fallbackTemplate MODERATE)) ''emergency''"
    "\<not> str_includes (toLowerCase (fallbackTemplate MODERATE)) ''urgent''"
    "str_includes (toLowerCase (fallbackTemplate MODERATE)) ''suggest''" by code_simp+
  ultimately show ?thesis by (simp add: addMedicalDisclaimer_def Let_def)
qed

lemma fallback_mild:
  "addMedicalDisclaimer rnd (fallbackTemplate MILD) =
     fallbackTemplate MILD @ '' '' @ randomDisclaimer rnd"
proof -
  have "\<not> hasDisclaimer (fallbackTemplate MILD)" by code_simp
  moreover have "\<not> str_includes (toLowerCase (fallbackTemplate MILD)) ''emergency''"
    "\<not> str_includes (toLowerCase (fallbackTemplate MILD)) ''urgent''"
    "\<not> str_includes (toLowerCase (fallbackTemplate MILD)) ''recommend''"
    "\<not> str_includes (toLowerCase (fallbackTemplate MILD)) ''suggest''" by code_simp+
  ultimately show ?thesis by (simp add: addMedicalDisclaimer_def Let_def)
qed

lemma fallback_closed:
  "generateFallbackResponse rnd a = fallbackTemplate (level a) @ '' '' @ fallbackDisclaimer rnd (level a)"
  by (cases "level a")
     (simp_all only: generateFallbackResponse_def fallback_emergency fallback_moderate
        fallback_mild fallbackDisclaimer.simps)

text \<open>
  C2, as amended: when the filtered text with its disclaimer passes \<open>validateResponse\<close>,
  \<open>generateSafeResponse\<close> returns it, and it contains no configured prohibited term,
  ignoring case and hence verbatim, and contains a disclaimer fragment; when it fails,
  the returned text is the fallback template of the assessment's level followed by a space
  and the disclaimer \<open>addMedicalDisclaimer\<close> appends to that template.
\<close>

theorem safe_response:
  assumes "0 \<le> rnd1" and "rnd1 < 1"
  shows "(isValid (validateResponse this (addMedicalDisclaimer rnd1 (filterProhibitedContent text))) \<longrightarrow>
            generateSafeResponse this rnd1 rnd2 text assessment =
              addMedicalDisclaimer rnd1 (filterProhibitedContent text) \<and>
            (\<forall>t\<in>set (prohibitedTerms this).
                \<not> str_includes (toLowerCase (generateSafeResponse this rnd1 rnd2 text assessment))
                     (toLowerCase t) \<and>
                \<not> str_includes (generateSafeResponse this rnd1 rnd2 text assessment) t) \<and>
            hasDisclaimer (generateSafeResponse this rnd1 rnd2 text assessment)) \<and>
         (\<not> isValid (validateResponse this (addMedicalDisclaimer rnd1 (filterProhibitedContent text))) \<longrightarrow>
            generateSafeResponse this rnd1 rnd2 text assessment =
              fallbackTemplate (level assessment) @ '' '' @
              fallbackDisclaimer rnd2 (level assessment))"
proof (intro conjI impI)
  let ?d = "addMedicalDisclaimer rnd1 (filterProhibitedContent text)"
  let ?r = "generateSafeResponse this rnd1 rnd2 text assessment"
  {
    assume v: "isValid (validateResponse this ?d)"
    then show r: "?r = ?d" by (simp add: generateSafeResponse_def Let_def)
    from valid_no_violation[OF v] have
      ci: "\<forall>t\<in>set (prohibitedTerms this). \<not> str_includes (toLowerCase ?d) (toLowerCase t)"
      by blast
    show "\<forall>t\<in>set (prohibitedTerms this).
            \<not> str_includes (toLowerCase ?r) (toLowerCase t) \<and> \<not> str_includes ?r t"
      unfolding r using ci str_includes_map[of ?d _ lowerChar]
      by (auto simp: toLowerCase_def)
    from valid_has_disclaimer[OF assms v] show "hasDisclaimer ?r" unfolding r .
  }
  {
    assume "\<not> isValid (validateResponse this ?d)"
    then show "?r = fallbackTemplate (level assessment) @ '' '' @
              fallbackDisclaimer rnd2 (level assessment)"
      by (simp add: generateSafeResponse_def Let_def fallback_closed)
  }
qed

theorem safe_response_witness:
  "(0::real) \<le> 7 / 10 \<and> (7 / 10 :: real) < 1 \<and>
   isValid (validateResponse newSafetyGuardian
      (addMedicalDisclaimer (7 / 10) (filterProhibitedContent ''Rest well.''))) \<and>
   generateSafeResponse newSafetyGuardian (7 / 10) (1 / 2) ''Rest well.'' emergencyAssessment =
      ''Rest well. In case of emergency, contact emergency services immediately'' \<and>
   hasDisclaimer
      (generateSafeResponse newSafetyGuardian (7 / 10) (1 / 2) ''Rest well.'' emergencyAssessment) \<and>
   \<not> isValid (validateResponse newSafetyGuardian
      (addMedicalDisclaimer (7 / 10) (filterProhibitedContent ''This is an emergency.''))) \<and>
   generateSafeResponse newSafetyGuardian (7 / 10) (1 / 2) ''This is an emergency.''
      emergencyAssessment =
      fallbackTemplate EMERGENCY @ '' '' @ emergencyDisclaimer"
proof -
  have r: "(0::real) \<le> 7 / 10" "(7 / 10 :: real) < 1" by simp_all
  have d: "addMedicalDisclaimer (7 / 10) (filterProhibitedContent ''Rest well.'') =
      ''Rest well. In case of emergency, contact emergency services immediately''"
    by code_simp
  have v: "isValid (validateResponse newSafetyGuardian
      (addMedicalDisclaimer (7 / 10) (filterProhibitedContent ''Rest well.'')))"
    by code_simp
  have n: "\<not> isValid (validateResponse newSafetyGuardian
      (addMedicalDisclaimer (7 / 10) (filterProhibitedContent ''This is an emergency.'')))"
    by code_simp
  have l: "level emergencyAssessment = EMERGENCY" by (simp add: emergencyAssessment_def)
  from safe_response[OF r, of newSafetyGuardian "''Rest well.''" "1 / 2" emergencyAssessment] v
  have g: "generateSafeResponse newSafetyGuardian (7 / 10) (1 / 2) ''Rest well.''
             emergencyAssessment =
           addMedicalDisclaimer (7 / 10) (filterProhibitedContent ''Rest well.'')"
    and h: "hasDisclaimer (generateSafeResponse newSafetyGuardian (7 / 10) (1 / 2)
             ''Rest well.'' emergencyAssessment)"
    by blast+
  from g d have g': "generateSafeResponse newSafetyGuardian (7 / 10) (1 / 2) ''Rest well.''
             emergencyAssessment =
           ''Rest well. In case of emergency, contact emergency services immediately''"
    by (rule trans)
  from safe_response[OF r, of newSafetyGuardian "''This is an emergency.''" "1 / 2"
        emergencyAssessment] n
  have "generateSafeResponse newSafetyGuardian (7 / 10) (1 / 2) ''This is an emergency.''
          emergencyAssessment =
        fallbackTemplate (level emergencyAssessment) @ '' '' @
        fallbackDisclaimer (1 / 2) (level emergencyAssessment)"
    by blast
  then have f: "generateSafeResponse newSafetyGuardian (7 / 10) (1 / 2)
          ''This is an emergency.'' emergencyAssessment =
        fallbackTemplate EMERGENCY @ '' '' @ emergencyDisclaimer"
    by (simp only: l fallbackDisclaimer.simps)
  from r v g' h n f show ?thesis by (intro conjI)
qed

theorem safe_response_counterexample:
  "''condition'' \<in> set (prohibitedTerms newSafetyGuardian) \<and>
   str_includes
     (generateSafeResponse newSafetyGuardian (1 / 2) (1 / 2) ''This is an emergency.''
        emergencyAssessment) ''condition'' \<and>
   \<not> hasDisclaimer
     (generateSafeResponse newSafetyGuardian (1 / 2) (1 / 2) ''This is an emergency.''
        emergencyAssessment) \<and>
   generateSafeResponse newSafetyGuardian (1 / 2) (1 / 2) ''This is an emergency.''
        emergencyAssessment \<noteq> fallbackTemplate (level emergencyAssessment)"
  by code_simp

end
